theory Spec2Isabelle
  imports Complex_Main "HOL-Library.Sublist" "HOL-Library.AList"
begin

section \<open>Python values as the scraper sees them\<close>

text \<open>
  A Python \<^verbatim>\<open>str\<close> is a sequence of Unicode code points, so it is modelled as a list of
  natural numbers: \<^verbatim>\<open>len\<close> is \<open>length\<close>, slicing is \<open>take\<close> and \<open>drop\<close>. ASCII literals
  of the source are written \<open>ascii ''...''\<close>; the Cyrillic literals are given by their code
  points.
\<close>

type_synonym ustr = "nat list"

definition ascii :: "string \<Rightarrow> ustr" where
  "ascii s = map of_char s"

text \<open>\<^verbatim>\<open>needle in hay\<close> for two strings: \<open>needle\<close> occurs in \<open>hay\<close> as a contiguous block.\<close>

fun str_contains :: "ustr \<Rightarrow> ustr \<Rightarrow> bool" where
  "str_contains needle [] = (needle = [])"
| "str_contains needle (c # cs) = (prefix needle (c # cs) \<or> str_contains needle cs)"

text \<open>
  What \<^verbatim>\<open>response.json()\<close> returns: \<^verbatim>\<open>None\<close>, a \<^verbatim>\<open>bool\<close>, an \<^verbatim>\<open>int\<close>, a \<^verbatim>\<open>float\<close>, a
  \<^verbatim>\<open>str\<close>, a \<^verbatim>\<open>list\<close> or a \<^verbatim>\<open>dict\<close> with string keys. A dict is the list of its items
  in insertion order; in a parsed payload the keys are distinct. The type \<open>'f\<close> of floats
  is a parameter.
\<close>

datatype 'f json =
    JNull
  | JBool bool
  | JInt int
  | JFloat 'f
  | JStr ustr
  | JArr "'f json list"
  | JObj "(ustr \<times> 'f json) list"

text \<open>
  The operations of the Python runtime that the repository calls but does not define are
  parameters of the model, collected in one record: the Unicode tables behind
  \<^verbatim>\<open>str.lower\<close>, \<^verbatim>\<open>str.strip\<close> and \<^verbatim>\<open>str.isdigit\<close>, the grammar of \<^verbatim>\<open>float(str)\<close>, the text
  that an f-string produces for a value that is not a string, and the arithmetic of
  floats. \<open>None\<close> from \<open>float_of_str\<close> is Python's \<^verbatim>\<open>ValueError\<close>, \<open>None\<close> from
  \<open>float_of_int\<close> its \<^verbatim>\<open>OverflowError\<close>; \<open>float_kj_to_kcal x\<close> is
  \<^verbatim>\<open>round(x / 4.184, 1)\<close> and \<open>int_ge_float n x\<close> is \<^verbatim>\<open>n >= x\<close>.
\<close>

record 'f runtime =
  str_lower :: "ustr \<Rightarrow> ustr"
  str_strip :: "ustr \<Rightarrow> ustr"
  chr_isdigit :: "nat \<Rightarrow> bool"
  float_of_str :: "ustr \<Rightarrow> 'f option"
  float_of_int :: "int \<Rightarrow> 'f option"
  float_truthy :: "'f \<Rightarrow> bool"
  float_times_1000 :: "'f \<Rightarrow> 'f"
  float_kj_to_kcal :: "'f \<Rightarrow> 'f"
  int_ge_float :: "int \<Rightarrow> 'f \<Rightarrow> bool"
  value_str :: "'f json \<Rightarrow> ustr"

text \<open>
  Exceptions are values: a computation that may raise returns \<open>Inl\<close> of the exception or
  \<open>Inr\<close> of its result, and \<open>bindE\<close> runs the rest of the code only after a result.
\<close>

datatype pyexc = AttributeError | TypeError | ValueError | KeyError | IndexError | OverflowError

type_synonym 'a result = "pyexc + 'a"

definition bindE :: "'a result \<Rightarrow> ('a \<Rightarrow> 'b result) \<Rightarrow> 'b result" where
  "bindE m k = (case m of Inl e \<Rightarrow> Inl e | Inr x \<Rightarrow> k x)"

lemma bindE_Inr [simp]: "bindE (Inr x) k = k x"
  by (simp add: bindE_def)

lemma bindE_Inl [simp]: "bindE (Inl e) k = Inl e"
  by (simp add: bindE_def)

lemma bindE_Inr_iff: "bindE m k = Inr y \<longleftrightarrow> (\<exists>x. m = Inr x \<and> k x = Inr y)"
  by (cases m) simp_all

lemma bindE_InrE:
  assumes "bindE m k = Inr y"
  obtains x where "m = Inr x" and "k x = Inr y"
  using assms by (cases m) simp_all

lemma bindE_cong [fundef_cong]:
  "m = m' \<Longrightarrow> (\<And>x. m' = Inr x \<Longrightarrow> k x = k' x) \<Longrightarrow> bindE m k = bindE m' k'"
  by (cases m') simp_all

text \<open>Truth value of a payload value, as \<^verbatim>\<open>if x:\<close>, \<^verbatim>\<open>not x\<close> and \<^verbatim>\<open>x or y\<close> test it.\<close>

fun truthy :: "'f runtime \<Rightarrow> 'f json \<Rightarrow> bool" where
  "truthy L JNull = False"
| "truthy L (JBool b) = b"
| "truthy L (JInt n) = (n \<noteq> 0)"
| "truthy L (JFloat x) = float_truthy L x"
| "truthy L (JStr s) = (s \<noteq> [])"
| "truthy L (JArr xs) = (xs \<noteq> [])"
| "truthy L (JObj kvs) = (kvs \<noteq> [])"

text \<open>\<^verbatim>\<open>x.get(key, default)\<close>: only a dict has the method.\<close>

fun py_get :: "'f json \<Rightarrow> ustr \<Rightarrow> 'f json \<Rightarrow> 'f json result" where
  "py_get (JObj kvs) key dflt = Inr (case map_of kvs key of None \<Rightarrow> dflt | Some v \<Rightarrow> v)"
| "py_get _ key dflt = Inl AttributeError"

text \<open>
  \<^verbatim>\<open>key in x\<close> for a string \<open>key\<close>: a key of a dict, an element of a list, a substring of
  a string; the other values are not iterable.
\<close>

fun py_in :: "ustr \<Rightarrow> 'f json \<Rightarrow> bool result" where
  "py_in key (JObj kvs) = Inr (map_of kvs key \<noteq> None)"
| "py_in key (JArr xs) = Inr (JStr key \<in> set xs)"
| "py_in key (JStr s) = Inr (str_contains key s)"
| "py_in key _ = Inl TypeError"

text \<open>\<^verbatim>\<open>x[key]\<close> for a string \<open>key\<close>.\<close>

fun py_getitem :: "'f json \<Rightarrow> ustr \<Rightarrow> 'f json result" where
  "py_getitem (JObj kvs) key = (case map_of kvs key of None \<Rightarrow> Inl KeyError | Some v \<Rightarrow> Inr v)"
| "py_getitem _ key = Inl TypeError"

text \<open>\<^verbatim>\<open>x[0]\<close>: a dict of a payload has no key \<^verbatim>\<open>0\<close>, its keys are strings.\<close>

fun py_first :: "'f json \<Rightarrow> 'f json result" where
  "py_first (JArr []) = Inl IndexError"
| "py_first (JArr (x # xs)) = Inr x"
| "py_first (JStr []) = Inl IndexError"
| "py_first (JStr (c # cs)) = Inr (JStr [c])"
| "py_first (JObj kvs) = Inl KeyError"
| "py_first _ = Inl TypeError"

text \<open>\<^verbatim>\<open>len(x)\<close>.\<close>

fun py_len :: "'f json \<Rightarrow> nat result" where
  "py_len (JArr xs) = Inr (length xs)"
| "py_len (JObj kvs) = Inr (length kvs)"
| "py_len (JStr s) = Inr (length s)"
| "py_len _ = Inl TypeError"

text \<open>
  \<^verbatim>\<open>for x in v\<close>: the elements of a list, the keys of a dict, the characters of a
  string.
\<close>

fun py_iter :: "'f json \<Rightarrow> 'f json list result" where
  "py_iter (JArr xs) = Inr xs"
| "py_iter (JObj kvs) = Inr (map (\<lambda>kv. JStr (fst kv)) kvs)"
| "py_iter (JStr s) = Inr (map (\<lambda>c. JStr [c]) s)"
| "py_iter _ = Inl TypeError"

text \<open>\<^verbatim>\<open>x.values()\<close> and \<^verbatim>\<open>x.items()\<close>.\<close>

fun py_values :: "'f json \<Rightarrow> 'f json list result" where
  "py_values (JObj kvs) = Inr (map snd kvs)"
| "py_values _ = Inl AttributeError"

fun py_items :: "'f json \<Rightarrow> (ustr \<times> 'f json) list result" where
  "py_items (JObj kvs) = Inr kvs"
| "py_items _ = Inl AttributeError"

text \<open>\<^verbatim>\<open>x.lower()\<close>, \<^verbatim>\<open>x.strip()\<close> and \<^verbatim>\<open>x.startswith(p)\<close>: methods of \<^verbatim>\<open>str\<close> only.\<close>

fun py_lower :: "'f runtime \<Rightarrow> 'f json \<Rightarrow> ustr result" where
  "py_lower L (JStr s) = Inr (str_lower L s)"
| "py_lower L _ = Inl AttributeError"

fun py_strip :: "'f runtime \<Rightarrow> 'f json \<Rightarrow> ustr result" where
  "py_strip L (JStr s) = Inr (str_strip L s)"
| "py_strip L _ = Inl AttributeError"

fun py_startswith :: "'f json \<Rightarrow> ustr \<Rightarrow> bool result" where
  "py_startswith (JStr s) p = Inr (prefix p s)"
| "py_startswith _ p = Inl AttributeError"

text \<open>\<^verbatim>\<open>float(x)\<close>.\<close>

fun py_float :: "'f runtime \<Rightarrow> 'f json \<Rightarrow> 'f result" where
  "py_float L (JStr s) = (case float_of_str L s of None \<Rightarrow> Inl ValueError | Some x \<Rightarrow> Inr x)"
| "py_float L (JInt n) = (case float_of_int L n of None \<Rightarrow> Inl OverflowError | Some x \<Rightarrow> Inr x)"
| "py_float L (JBool b) =
     (case float_of_int L (if b then 1 else 0) of None \<Rightarrow> Inl OverflowError | Some x \<Rightarrow> Inr x)"
| "py_float L (JFloat x) = Inr x"
| "py_float L _ = Inl TypeError"

text \<open>\<^verbatim>\<open>sep.join(xs)\<close>: every element has to be a string.\<close>

fun str_join :: "ustr \<Rightarrow> ustr list \<Rightarrow> ustr" where
  "str_join sep [] = []"
| "str_join sep [s] = s"
| "str_join sep (s # t # ts) = s @ sep @ str_join sep (t # ts)"

fun the_strs :: "'f json list \<Rightarrow> ustr list result" where
  "the_strs [] = Inr []"
| "the_strs (JStr s # xs) = bindE (the_strs xs) (\<lambda>ss. Inr (s # ss))"
| "the_strs (_ # xs) = Inl TypeError"

definition py_join :: "ustr \<Rightarrow> 'f json list \<Rightarrow> ustr result" where
  "py_join sep xs = bindE (the_strs xs) (\<lambda>ss. Inr (str_join sep ss))"

text \<open>The text an f-string puts for \<^verbatim>\<open>{x}\<close>: a string stands for itself.\<close>

fun py_str :: "'f runtime \<Rightarrow> 'f json \<Rightarrow> ustr" where
  "py_str L (JStr s) = s"
| "py_str L v = value_str L v"

text \<open>\<^verbatim>\<open>s.isdigit()\<close>: at least one character, and every character is a digit.\<close>

definition str_isdigit :: "'f runtime \<Rightarrow> ustr \<Rightarrow> bool" where
  "str_isdigit L s = (s \<noteq> [] \<and> list_all (chr_isdigit L) s)"

text \<open>\<^verbatim>\<open>list(d.values())[0]\<close>: the first element of a Python list.\<close>

fun list_first :: "'a list \<Rightarrow> 'a result" where
  "list_first [] = Inl IndexError"
| "list_first (x # xs) = Inr x"

text \<open>
  \<^verbatim>\<open>n >= x\<close> for an \<^verbatim>\<open>int\<close> \<open>n\<close>: defined against numbers (a \<^verbatim>\<open>bool\<close> counts as 0 or
  1), a \<^verbatim>\<open>TypeError\<close> against anything else.
\<close>

fun py_int_ge :: "'f runtime \<Rightarrow> int \<Rightarrow> 'f json \<Rightarrow> bool result" where
  "py_int_ge L n (JInt m) = Inr (m \<le> n)"
| "py_int_ge L n (JBool b) = Inr ((if b then 1 else 0) \<le> n)"
| "py_int_ge L n (JFloat x) = Inr (int_ge_float L n x)"
| "py_int_ge L n v = Inl TypeError"

text \<open>
  \<^verbatim>\<open>s.update(v)\<close> for a set \<open>s\<close>: every element that \<open>v\<close> yields is hashed, and lists
  and dicts cannot be. Python's set holds numbers that compare equal (\<^verbatim>\<open>1\<close>, \<^verbatim>\<open>1.0\<close>,
  \<^verbatim>\<open>True\<close>) once; identifiers are strings, on which Python's equality is HOL's.
\<close>

fun hashable :: "'f json \<Rightarrow> bool" where
  "hashable (JArr xs) = False"
| "hashable (JObj kvs) = False"
| "hashable v = True"

definition py_set_update :: "'f json set \<Rightarrow> 'f json \<Rightarrow> 'f json set result" where
  "py_set_update s v =
     bindE (py_iter v) (\<lambda>xs. if list_all hashable xs then Inr (s \<union> set xs) else Inl TypeError)"

section \<open>A runtime for the examples\<close>

text \<open>
  The closed examples of this theory are evaluated in the runtime \<open>py0\<close>. It agrees with
  CPython on the text the examples contain: ASCII and basic Cyrillic letters, ASCII
  white space and digits, unsigned decimal literals; floats are rational numbers with
  exact arithmetic. Outside that text it is one fixed choice among many, and no general
  theorem below depends on it: they hold for every runtime.
\<close>

definition chr_lower0 :: "nat \<Rightarrow> nat" where
  "chr_lower0 c =
     (if 65 \<le> c \<and> c \<le> 90 then c + 32
      else if 1040 \<le> c \<and> c \<le> 1071 then c + 32
      else if 1024 \<le> c \<and> c \<le> 1039 then c + 80
      else c)"

definition chr_isspace0 :: "nat \<Rightarrow> bool" where
  "chr_isspace0 c = (c = 32 \<or> (9 \<le> c \<and> c \<le> 13))"

definition str_strip0 :: "ustr \<Rightarrow> ustr" where
  "str_strip0 s = rev (dropWhile chr_isspace0 (rev (dropWhile chr_isspace0 s)))"

definition chr_isdigit0 :: "nat \<Rightarrow> bool" where
  "chr_isdigit0 c = (48 \<le> c \<and> c \<le> 57)"

definition decimal :: "ustr \<Rightarrow> nat" where
  "decimal ds = foldl (\<lambda>a c. 10 * a + (c - 48)) 0 ds"

definition is_decimal :: "ustr \<Rightarrow> bool" where
  "is_decimal ds = (ds \<noteq> [] \<and> list_all chr_isdigit0 ds)"

definition float_of_str0 :: "ustr \<Rightarrow> rat option" where
  "float_of_str0 s =
     (let ip = takeWhile (\<lambda>c. c \<noteq> 46) s; rest = dropWhile (\<lambda>c. c \<noteq> 46) s
      in case rest of
           [] \<Rightarrow> if is_decimal ip then Some (of_nat (decimal ip)) else None
         | dot # fp \<Rightarrow>
             if is_decimal ip \<and> is_decimal fp
             then Some (of_nat (decimal ip) + of_nat (decimal fp) / 10 ^ length fp)
             else None)"

definition round_half_even :: "rat \<Rightarrow> int" where
  "round_half_even q =
     (let n = \<lfloor>q\<rfloor>; d = q - of_int n
      in if d < 1 / 2 then n else if 1 / 2 < d then n + 1 else if even n then n else n + 1)"

definition kj_to_kcal0 :: "rat \<Rightarrow> rat" where
  "kj_to_kcal0 x = of_int (round_half_even (x / (4184 / 1000) * 10)) / 10"

fun digits_of :: "nat \<Rightarrow> ustr" where
  "digits_of n = (if n < 10 then [48 + n] else digits_of (n div 10) @ [48 + n mod 10])"

fun value_str0 :: "rat json \<Rightarrow> ustr" where
  "value_str0 JNull = ascii ''None''"
| "value_str0 (JBool b) = (if b then ascii ''True'' else ascii ''False'')"
| "value_str0 (JInt n) = (if n < 0 then 45 # digits_of (nat (- n)) else digits_of (nat n))"
| "value_str0 v = []"

definition py0 :: "rat runtime" where
  "py0 = \<lparr> str_lower = map chr_lower0,
           str_strip = str_strip0,
           chr_isdigit = chr_isdigit0,
           float_of_str = float_of_str0,
           float_of_int = (\<lambda>n. Some (of_int n)),
           float_truthy = (\<lambda>x. x \<noteq> 0),
           float_times_1000 = (\<lambda>x. x * 1000),
           float_kj_to_kcal = kj_to_kcal0,
           int_ge_float = (\<lambda>n x. x \<le> of_int n),
           value_str = value_str0 \<rparr>"

section \<open>Variant identifiers\<close>

text \<open>
  \<^verbatim>\<open>
  def convert_variant_to_article_id(self, variant_id: str) -> str:
      if len(variant_id) > 4 and variant_id[-4:].isdigit():
          return variant_id[:-4]
      return variant_id
  \<close>
  \<^verbatim>\<open>variant_id[-4:]\<close> is the last four characters (the whole string when it is shorter),
  \<^verbatim>\<open>variant_id[:-4]\<close> is the string without them.
\<close>

definition convert_variant_to_article_id :: "'f runtime \<Rightarrow> ustr \<Rightarrow> ustr" where
  "convert_variant_to_article_id L variant_id =
     (if length variant_id > 4 \<and> str_isdigit L (drop (length variant_id - 4) variant_id)
      then take (length variant_id - 4) variant_id
      else variant_id)"

section \<open>Category walker\<close>

text \<open>
  The root category of the source, \<^verbatim>\<open>hranitelni-stoki\<close> written in Cyrillic, by code
  points.
\<close>

definition root_category :: ustr where
  "root_category =
     [1093, 1088, 1072, 1085, 1080, 1090, 1077, 1083, 1085, 1080, 45,
      1089, 1090, 1086, 1082, 1080]"

text \<open>
  \<^verbatim>\<open>
  def extract_categories(tree_node, current_path=""):
      if 'children' in tree_node:
          for category_id, category_data in tree_node['children'].items():
              category_path = category_data.get('urlCategoryPath', '')
              if category_path and category_path.startswith(ROOT):
                  categories.append(category_path)
                  extract_categories(category_data, category_path)
  \<close>
  The nested function appends to the list \<^verbatim>\<open>categories\<close> of the enclosing call; here
  the list is passed in and returned. \<open>extract_children\<close> is the \<^verbatim>\<open>for\<close> loop over the
  items. Every call descends into a value stored inside its argument, which is why the
  recursion ends.
\<close>

lemma size_map_of_less: "map_of kvs key = Some v \<Longrightarrow> size v < size (JObj kvs)"
  by (induction kvs) (auto split: if_splits)

function extract_categories :: "'f runtime \<Rightarrow> 'f json \<Rightarrow> 'f json list \<Rightarrow> 'f json list result"
  and extract_children ::
    "'f runtime \<Rightarrow> (ustr \<times> 'f json) list \<Rightarrow> 'f json list \<Rightarrow> 'f json list result"
where
  "extract_categories L tree_node categories =
     bindE (py_in (ascii ''children'') tree_node) (\<lambda>has_children.
       if has_children
       then bindE (py_getitem tree_node (ascii ''children'')) (\<lambda>children.
            bindE (py_items children) (\<lambda>items.
              extract_children L items categories))
       else Inr categories)"
| "extract_children L [] categories = Inr categories"
| "extract_children L ((category_id, category_data) # rest) categories =
     bindE (py_get category_data (ascii ''urlCategoryPath'') (JStr [])) (\<lambda>category_path.
       if truthy L category_path
       then bindE (py_startswith category_path root_category) (\<lambda>under_root.
              if under_root
              then bindE (extract_categories L category_data (categories @ [category_path]))
                     (\<lambda>categories'. extract_children L rest categories')
              else extract_children L rest categories)
       else extract_children L rest categories)"
  by pat_completeness auto
termination
proof (relation "measure (\<lambda>x. case x of
           Inl (L, tree_node, categories) \<Rightarrow> size tree_node
         | Inr (L, items, categories) \<Rightarrow> size (JObj items))")
  show "wf (measure (\<lambda>x. case x of
           Inl (L, tree_node, categories) \<Rightarrow> size tree_node
         | Inr (L, items, categories) \<Rightarrow> size (JObj items)))"
    by simp
next
  fix L :: "'f runtime" and tree_node :: "'f json" and categories :: "'f json list"
    and has children items
  assume "py_getitem tree_node (ascii ''children'') = Inr children"
    and "py_items children = Inr items"
  then have "size (JObj items) < size tree_node"
    by (cases tree_node; cases children) (auto split: option.splits dest: size_map_of_less)
  then show "(Inr (L, items, categories), Inl (L, tree_node, categories))
      \<in> measure (\<lambda>x. case x of
           Inl (L, tree_node, categories) \<Rightarrow> size tree_node
         | Inr (L, items, categories) \<Rightarrow> size (JObj items))"
    by simp
qed auto

declare extract_categories.simps [simp del]

text \<open>
  \<^verbatim>\<open>
  response = self._make_request(url, params)
  categories = []
  if response and 'categorytree' in response:
      ...
      food_tree = response['categorytree']['children'].get('Food_1622788118100', {})
      extract_categories(food_tree)
  if not categories:
      categories = [ROOT]
  return categories
  \<close>
  \<open>response\<close> is what \<^verbatim>\<open>_make_request\<close> returned: the parsed body, or \<open>JNull\<close> for
  \<^verbatim>\<open>None\<close> after a failed request. Nothing in the method catches an exception.
\<close>

definition get_food_subcategories :: "'f runtime \<Rightarrow> 'f json \<Rightarrow> 'f json list result" where
  "get_food_subcategories L response =
     bindE
       (if truthy L response
        then bindE (py_in (ascii ''categorytree'') response) (\<lambda>has_tree.
               if has_tree
               then bindE (py_getitem response (ascii ''categorytree'')) (\<lambda>categorytree.
                    bindE (py_getitem categorytree (ascii ''children'')) (\<lambda>children.
                    bindE (py_get children (ascii ''Food_1622788118100'') (JObj [])) (\<lambda>food_tree.
                      extract_categories L food_tree [])))
               else Inr [])
        else Inr [])
       (\<lambda>categories. Inr (if categories = [] then [JStr root_category] else categories))"

section \<open>Identifier paginator\<close>

text \<open>
  One turn of the \<^verbatim>\<open>while True\<close> loop of \<^verbatim>\<open>get_product_variant_ids_from_category\<close>, on
  the response to the request for \<open>page\<close>:
  \<^verbatim>\<open>
  if not response or 'resultIds' not in response:
      break
  result_ids = response['resultIds']
  if not result_ids:
      break
  all_variant_ids.update(result_ids)
  if page >= response.get('totalPages', 1) or page >= 100:  # Safety limit
      break
  page += 1
  \<close>
  The turn ends the loop (\<open>Break\<close>), goes on to the next page (\<open>Continue\<close>), or raises.
\<close>

datatype 'a loop_step = Break 'a | Continue 'a

definition page_step ::
  "'f runtime \<Rightarrow> 'f json \<Rightarrow> nat \<Rightarrow> 'f json set \<Rightarrow> 'f json set loop_step result" where
  "page_step L response page all_variant_ids =
     (if \<not> truthy L response then Inr (Break all_variant_ids)
      else bindE (py_in (ascii ''resultIds'') response) (\<lambda>has_ids.
        if \<not> has_ids then Inr (Break all_variant_ids)
        else bindE (py_getitem response (ascii ''resultIds'')) (\<lambda>result_ids.
          if \<not> truthy L result_ids then Inr (Break all_variant_ids)
          else bindE (py_set_update all_variant_ids result_ids) (\<lambda>all_variant_ids'.
               bindE (py_get response (ascii ''totalPages'') (JInt 1)) (\<lambda>total_pages.
               bindE (py_int_ge L (int page) total_pages) (\<lambda>last_page.
                 if last_page \<or> page \<ge> 100 then Inr (Break all_variant_ids')
                 else Inr (Continue all_variant_ids')))))))"

lemma page_step_Continue: "page_step L response page s = Inr (Continue s') \<Longrightarrow> page < 100"
  by (auto simp: page_step_def bindE_Inr_iff split: if_splits)

text \<open>
  The loop. \<open>fetch page\<close> is the response \<^verbatim>\<open>_make_request\<close> gives for that page of the
  category. The pages requested so far are kept in \<open>requested\<close> and returned with the
  outcome, also when the outcome is an exception: a request that was sent stays sent.
  The loop ends because a turn goes on only below page 100.
\<close>

function pages_from ::
  "'f runtime \<Rightarrow> (nat \<Rightarrow> 'f json) \<Rightarrow> nat \<Rightarrow> 'f json set \<Rightarrow> nat list
     \<Rightarrow> nat list \<times> 'f json set result" where
  "pages_from L fetch page all_variant_ids requested =
     (case page_step L (fetch page) page all_variant_ids of
        Inl e \<Rightarrow> (requested @ [page], Inl e)
      | Inr (Break ids) \<Rightarrow> (requested @ [page], Inr ids)
      | Inr (Continue ids) \<Rightarrow> pages_from L fetch (Suc page) ids (requested @ [page]))"
  by pat_completeness auto
termination
  by (relation "measure (\<lambda>(L, fetch, page, ids, requested). 100 - page)")
     (auto dest: page_step_Continue)

declare pages_from.simps [simp del]

text \<open>
  \<^verbatim>\<open>
  all_variant_ids = set()
  page = 1
  while True: ...
  return all_variant_ids
  \<close>
  \<open>fetch category page\<close> is the answer of the search endpoint for that category and page.
\<close>

definition get_product_variant_ids_from_category ::
  "'f runtime \<Rightarrow> (ustr \<Rightarrow> nat \<Rightarrow> 'f json) \<Rightarrow> ustr \<Rightarrow> nat list \<times> 'f json set result" where
  "get_product_variant_ids_from_category L fetch category =
     pages_from L (fetch category) 1 {} []"

section \<open>The flat product record\<close>

text \<open>
  The sixteen columns shared by the dict that \<^verbatim>\<open>extract_product_data\<close> returns, the CSV
  file and the table \<^verbatim>\<open>metro_source\<close>. The types of the key, of the seven descriptive
  columns and of the eight per-100g columns are parameters: the extractor fills them with
  payload values and optional floats, the database with SQL values.
\<close>

record ('k, 't, 'n) flat_product =
  code :: 'k
  product_name :: 't
  quantity :: 't
  brand :: 't
  categories :: 't
  ingredients :: 't
  image_url :: 't
  nutriscore_grade :: 't
  energy_100g :: 'n
  fat_100g :: 'n
  saturated_fat_100g :: 'n
  proteins_100g :: 'n
  carbohydrates_100g :: 'n
  sugars_100g :: 'n
  fiber_100g :: 'n
  sodium_100g :: 'n

section \<open>Field extractor: nutrition values\<close>

text \<open>
  The unit reconciliation of \<^verbatim>\<open>extract_nutritional_value\<close>:
  \<^verbatim>\<open>
  if unit and unit.lower() != cell_unit:
      if unit.lower() == 'mg' and cell_unit == 'g':
          value = value * 1000  # Convert grams to milligrams
  \<close>
  \<open>unit\<close> is the optional parameter \<^verbatim>\<open>unit: str = None\<close>.
\<close>

definition reconcile_unit :: "'f runtime \<Rightarrow> ustr option \<Rightarrow> ustr \<Rightarrow> 'f \<Rightarrow> 'f" where
  "reconcile_unit L unit cell_unit value =
     (case unit of
        None \<Rightarrow> value
      | Some u \<Rightarrow>
          if u \<noteq> [] \<and> str_lower L u \<noteq> cell_unit
          then (if str_lower L u = ascii ''mg'' \<and> cell_unit = ascii ''g''
                then float_times_1000 L value else value)
          else value)"

text \<open>
  The body of the \<^verbatim>\<open>try\<close> block:
  \<^verbatim>\<open>
  value = float(cells[0].get('value', ''))
  cell_unit = cells[0].get('unitOfMeasure', '').lower()
  ...
  return value
  \<close>
\<close>

definition cell_value :: "'f runtime \<Rightarrow> ustr option \<Rightarrow> 'f json \<Rightarrow> 'f result" where
  "cell_value L unit cells =
     bindE (py_first cells) (\<lambda>cell.
     bindE (py_get cell (ascii ''value'') (JStr [])) (\<lambda>raw.
     bindE (py_float L raw) (\<lambda>value.
     bindE (py_first cells) (\<lambda>cell'.
     bindE (py_get cell' (ascii ''unitOfMeasure'') (JStr [])) (\<lambda>raw_unit.
     bindE (py_lower L raw_unit) (\<lambda>cell_unit.
       Inr (reconcile_unit L unit cell_unit value)))))))"

text \<open>
  One turn of the loop over the rows: \<open>Some value\<close> when the turn returns, \<open>None\<close> when
  the loop goes on with the next row.
  \<^verbatim>\<open>
  row_label = row.get('rowLabel', '').lower()
  cells = row.get('cells', [])
  if any(keyword in row_label for keyword in label_keywords):
      if len(cells) >= 1 and cells[0].get('value'):
          try:
              ...
              return value
          except (ValueError, TypeError):
              continue
  \<close>
\<close>

definition scan_row ::
  "'f runtime \<Rightarrow> ustr list \<Rightarrow> ustr option \<Rightarrow> 'f json \<Rightarrow> 'f option result" where
  "scan_row L label_keywords unit row =
     bindE (py_get row (ascii ''rowLabel'') (JStr [])) (\<lambda>label.
     bindE (py_lower L label) (\<lambda>row_label.
     bindE (py_get row (ascii ''cells'') (JArr [])) (\<lambda>cells.
       if list_ex (\<lambda>keyword. str_contains keyword row_label) label_keywords
       then bindE (py_len cells) (\<lambda>n.
              if n \<ge> 1
              then bindE (py_first cells) (\<lambda>cell.
                   bindE (py_get cell (ascii ''value'') JNull) (\<lambda>v.
                     if truthy L v
                     then (case cell_value L unit cells of
                             Inr value \<Rightarrow> Inr (Some value)
                           | Inl e \<Rightarrow>
                               if e = ValueError \<or> e = TypeError then Inr None else Inl e)
                     else Inr None))
              else Inr None)
       else Inr None)))"

fun scan_rows ::
  "'f runtime \<Rightarrow> ustr list \<Rightarrow> ustr option \<Rightarrow> 'f json list \<Rightarrow> 'f option result" where
  "scan_rows L label_keywords unit [] = Inr None"
| "scan_rows L label_keywords unit (row # rows) =
     bindE (scan_row L label_keywords unit row) (\<lambda>found.
       case found of
         Some value \<Rightarrow> Inr (Some value)
       | None \<Rightarrow> scan_rows L label_keywords unit rows)"

text \<open>
  \<^verbatim>\<open>
  def extract_nutritional_value(self, nutrition_table, label_keywords, unit=None):
      if not nutrition_table or 'rows' not in nutrition_table:
          return None
      for row in nutrition_table['rows']:
          ...
      return None
  \<close>
\<close>

definition extract_nutritional_value ::
  "'f runtime \<Rightarrow> 'f json \<Rightarrow> ustr list \<Rightarrow> ustr option \<Rightarrow> 'f option result" where
  "extract_nutritional_value L nutrition_table label_keywords unit =
     (if \<not> truthy L nutrition_table then Inr None
      else bindE (py_in (ascii ''rows'') nutrition_table) (\<lambda>has_rows.
        if \<not> has_rows then Inr None
        else bindE (py_getitem nutrition_table (ascii ''rows'')) (\<lambda>rows.
             bindE (py_iter rows) (\<lambda>row_list.
               scan_rows L label_keywords unit row_list))))"

text \<open>
  The keywords of the eight lookups, by code points. In Latin letters they read
  \<^verbatim>\<open>energiyna stoynost\<close>, \<^verbatim>\<open>maznini\<close>, \<^verbatim>\<open>nasiteni\<close>, \<^verbatim>\<open>beltatsi\<close>,
  \<^verbatim>\<open>vaglehidrati\<close>, \<^verbatim>\<open>zahari\<close> and \<^verbatim>\<open>vlakna\<close>; \<^verbatim>\<open>fiber\<close> and \<^verbatim>\<open>sodium\<close> are ASCII in
  the source.
\<close>

definition kw_energy :: ustr where
  "kw_energy = [1077, 1085, 1077, 1088, 1075, 1080, 1081, 1085, 1072, 32,
                1089, 1090, 1086, 1081, 1085, 1086, 1089, 1090]"

definition kw_fat :: ustr where
  "kw_fat = [1084, 1072, 1079, 1085, 1080, 1085, 1080]"

definition kw_saturated :: ustr where
  "kw_saturated = [1085, 1072, 1089, 1080, 1090, 1077, 1085, 1080]"

definition kw_proteins :: ustr where
  "kw_proteins = [1073, 1077, 1083, 1090, 1098, 1094, 1080]"

definition kw_carbohydrates :: ustr where
  "kw_carbohydrates = [1074, 1098, 1075, 1083, 1077, 1093, 1080, 1076, 1088, 1072, 1090, 1080]"

definition kw_sugars :: ustr where
  "kw_sugars = [1079, 1072, 1093, 1072, 1088, 1080]"

definition kw_fiber :: ustr where
  "kw_fiber = [1074, 1083, 1072, 1082, 1085, 1072]"

text \<open>
  The dict \<^verbatim>\<open>nutrition_data\<close>, by its items; \<^verbatim>\<open>nutrition_data.get(key)\<close> is \<^verbatim>\<open>None\<close> for
  a key that is missing and for a key that holds \<^verbatim>\<open>None\<close>.
\<close>

type_synonym 'f nutrition_data = "(ustr \<times> 'f option) list"

definition nutrition_get :: "'f nutrition_data \<Rightarrow> ustr \<Rightarrow> 'f option" where
  "nutrition_get nutrition_data key =
     (case map_of nutrition_data key of None \<Rightarrow> None | Some v \<Rightarrow> v)"

fun float_opt_truthy :: "'f runtime \<Rightarrow> 'f option \<Rightarrow> bool" where
  "float_opt_truthy L None = False"
| "float_opt_truthy L (Some x) = float_truthy L x"

text \<open>
  \<^verbatim>\<open>
  # Special handling for energy in kJ (convert to kcal if needed)
  if not nutrition_data.get('energy_100g'):
      energy_kj = self.extract_nutritional_value(nutrition_table, [ENERGY], 'kJ')
      if energy_kj:
          nutrition_data['energy_100g'] = round(energy_kj / 4.184, 1)  # Convert kJ to kcal
  \<close>
\<close>

definition energy_fallback ::
  "'f runtime \<Rightarrow> 'f json \<Rightarrow> 'f nutrition_data \<Rightarrow> 'f nutrition_data result" where
  "energy_fallback L nutrition_table nutrition_data =
     (if \<not> float_opt_truthy L (nutrition_get nutrition_data (ascii ''energy_100g''))
      then bindE (extract_nutritional_value L nutrition_table [kw_energy] (Some (ascii ''kJ'')))
             (\<lambda>energy_kj.
               case energy_kj of
                 None \<Rightarrow> Inr nutrition_data
               | Some kj \<Rightarrow>
                   if float_truthy L kj
                   then Inr (AList.update (ascii ''energy_100g'') (Some (float_kj_to_kcal L kj))
                               nutrition_data)
                   else Inr nutrition_data)
      else Inr nutrition_data)"

text \<open>
  The dict display with its eight lookups, evaluated in the order written, followed by
  the energy fallback.
\<close>

definition extract_nutrition :: "'f runtime \<Rightarrow> 'f json \<Rightarrow> 'f nutrition_data result" where
  "extract_nutrition L nutrition_table =
     bindE (extract_nutritional_value L nutrition_table [kw_energy] (Some (ascii ''kcal'')))
       (\<lambda>energy.
     bindE (extract_nutritional_value L nutrition_table [kw_fat] (Some (ascii ''g'')))
       (\<lambda>fat.
     bindE (extract_nutritional_value L nutrition_table [kw_saturated] (Some (ascii ''g'')))
       (\<lambda>saturated_fat.
     bindE (extract_nutritional_value L nutrition_table [kw_proteins] (Some (ascii ''g'')))
       (\<lambda>proteins.
     bindE (extract_nutritional_value L nutrition_table [kw_carbohydrates] (Some (ascii ''g'')))
       (\<lambda>carbohydrates.
     bindE (extract_nutritional_value L nutrition_table [kw_sugars] (Some (ascii ''g'')))
       (\<lambda>sugars.
     bindE (extract_nutritional_value L nutrition_table [kw_fiber, ascii ''fiber'']
              (Some (ascii ''g'')))
       (\<lambda>fiber.
     bindE (extract_nutritional_value L nutrition_table [ascii ''sodium''] (Some (ascii ''mg'')))
       (\<lambda>sodium.
       energy_fallback L nutrition_table
         [(ascii ''energy_100g'', energy),
          (ascii ''fat_100g'', fat),
          (ascii ''saturated_fat_100g'', saturated_fat),
          (ascii ''proteins_100g'', proteins),
          (ascii ''carbohydrates_100g'', carbohydrates),
          (ascii ''sugars_100g'', sugars),
          (ascii ''fiber_100g'', fiber),
          (ascii ''sodium_100g'', sodium)]))))))))"

section \<open>Field extractor: ingredients\<close>

text \<open>
  What one leaf adds to \<^verbatim>\<open>ingredient_parts\<close>:
  \<^verbatim>\<open>
  meta_info = leaf.get('metaInfo', '')
  if meta_info in ['Contains', ''] and leaf.get('label'):
      label = leaf.get('label', '').strip()
      if label and label not in ['INGREDIENTS', '(', ')']:
          ingredient_parts.append(label)
  \<close>
\<close>

definition leaf_label :: "'f runtime \<Rightarrow> 'f json \<Rightarrow> ustr option result" where
  "leaf_label L leaf =
     bindE (py_get leaf (ascii ''metaInfo'') (JStr [])) (\<lambda>meta_info.
       if meta_info = JStr (ascii ''Contains'') \<or> meta_info = JStr []
       then bindE (py_get leaf (ascii ''label'') JNull) (\<lambda>has_label.
              if truthy L has_label
              then bindE (py_get leaf (ascii ''label'') (JStr [])) (\<lambda>raw.
                   bindE (py_strip L raw) (\<lambda>label.
                     if label \<noteq> []
                        \<and> label \<notin> set [ascii ''INGREDIENTS'', ascii ''('', ascii '')'']
                     then Inr (Some label) else Inr None))
              else Inr None)
       else Inr None)"

fun ingredient_parts :: "'f runtime \<Rightarrow> 'f json list \<Rightarrow> ustr list result" where
  "ingredient_parts L [] = Inr []"
| "ingredient_parts L (leaf # leafs) =
     bindE (leaf_label L leaf) (\<lambda>label.
     bindE (ingredient_parts L leafs) (\<lambda>parts.
       Inr (case label of None \<Rightarrow> parts | Some l \<Rightarrow> l # parts)))"

text \<open>
  \<^verbatim>\<open>
  for feature in features:
      if feature.get('featureType') == 'ingredientStatement':
          leafs = feature.get('leafs', [])
          ...
          if ingredient_parts:
              return ' '.join(ingredient_parts)
  return None
  \<close>
\<close>

fun scan_features :: "'f runtime \<Rightarrow> 'f json list \<Rightarrow> 'f json result" where
  "scan_features L [] = Inr JNull"
| "scan_features L (feature # features) =
     bindE (py_get feature (ascii ''featureType'') JNull) (\<lambda>feature_type.
       if feature_type = JStr (ascii ''ingredientStatement'')
       then bindE (py_get feature (ascii ''leafs'') (JArr [])) (\<lambda>leafs.
            bindE (py_iter leafs) (\<lambda>leaf_list.
            bindE (ingredient_parts L leaf_list) (\<lambda>parts.
              if parts \<noteq> [] then Inr (JStr (str_join (ascii '' '') parts))
              else scan_features L features)))
       else scan_features L features)"

definition extract_ingredients :: "'f runtime \<Rightarrow> 'f json \<Rightarrow> 'f json result" where
  "extract_ingredients L features = bindE (py_iter features) (scan_features L)"

section \<open>Field extractor: the flat record\<close>

text \<open>
  \<^verbatim>\<open>
  variants = article_data.get('variants', {})
  if not variants:
      return None
  variant = list(variants.values())[0]
  bundles = variant.get('bundles', {})
  if not bundles:
      return None
  bundle = list(bundles.values())[0]
  \<close>
  \<open>None\<close> stands for the two early returns.
\<close>

definition locate_bundle :: "'f runtime \<Rightarrow> 'f json \<Rightarrow> 'f json option result" where
  "locate_bundle L article_data =
     bindE (py_get article_data (ascii ''variants'') (JObj [])) (\<lambda>variants.
       if \<not> truthy L variants then Inr None
       else bindE (py_values variants) (\<lambda>variant_list.
            bindE (list_first variant_list) (\<lambda>variant.
            bindE (py_get variant (ascii ''bundles'') (JObj [])) (\<lambda>bundles.
              if \<not> truthy L bundles then Inr None
              else bindE (py_values bundles) (\<lambda>bundle_list.
                   bindE (list_first bundle_list) (\<lambda>bundle.
                     Inr (Some bundle)))))))"

text \<open>
  \<^verbatim>\<open>
  ean_numbers = bundle.get('eanNumber', []) or bundle.get('gtins', [])
  code = None
  if ean_numbers and len(ean_numbers) > 0:
      code = ean_numbers[0].get('number')
  \<close>
\<close>

definition extract_code :: "'f runtime \<Rightarrow> 'f json \<Rightarrow> 'f json result" where
  "extract_code L bundle =
     bindE (py_get bundle (ascii ''eanNumber'') (JArr [])) (\<lambda>ean.
     bindE (if truthy L ean then Inr ean else py_get bundle (ascii ''gtins'') (JArr []))
       (\<lambda>ean_numbers.
         if truthy L ean_numbers
         then bindE (py_len ean_numbers) (\<lambda>n.
                if n > 0
                then bindE (py_first ean_numbers) (\<lambda>entry.
                       py_get entry (ascii ''number'') JNull)
                else Inr JNull)
         else Inr JNull))"

text \<open>
  \<^verbatim>\<open>
  content_data = bundle.get('contentData', {})
  net_weight = content_data.get('netPieceWeight', {})
  quantity = None
  if net_weight and net_weight.get('value'):
      value = net_weight.get('value', '')
      unit = net_weight.get('uom', '')
      quantity = f"{value} {unit}".strip()
  \<close>
\<close>

definition extract_quantity :: "'f runtime \<Rightarrow> 'f json \<Rightarrow> 'f json result" where
  "extract_quantity L bundle =
     bindE (py_get bundle (ascii ''contentData'') (JObj [])) (\<lambda>content_data.
     bindE (py_get content_data (ascii ''netPieceWeight'') (JObj [])) (\<lambda>net_weight.
       if truthy L net_weight
       then bindE (py_get net_weight (ascii ''value'') JNull) (\<lambda>has_value.
              if truthy L has_value
              then bindE (py_get net_weight (ascii ''value'') (JStr [])) (\<lambda>value.
                   bindE (py_get net_weight (ascii ''uom'') (JStr [])) (\<lambda>unit.
                     Inr (JStr (str_strip L (py_str L value @ ascii '' '' @ py_str L unit)))))
              else Inr JNull)
       else Inr JNull))"

text \<open>
  \<^verbatim>\<open>
  for cat in categories:
      levels = cat.get('levels', [])
      if levels:
          level_names = [level.get('displayName', '') for level in levels
                         if level.get('displayName')]
          if level_names:
              category_parts.append(' > '.join(level_names))
  categories_str = ' | '.join(category_parts) if category_parts else None
  \<close>
\<close>

fun level_names :: "'f runtime \<Rightarrow> 'f json list \<Rightarrow> 'f json list result" where
  "level_names L [] = Inr []"
| "level_names L (level # levels) =
     bindE (py_get level (ascii ''displayName'') JNull) (\<lambda>has_name.
       if truthy L has_name
       then bindE (py_get level (ascii ''displayName'') (JStr [])) (\<lambda>name.
            bindE (level_names L levels) (\<lambda>names. Inr (name # names)))
       else level_names L levels)"

definition category_part :: "'f runtime \<Rightarrow> 'f json \<Rightarrow> ustr option result" where
  "category_part L cat =
     bindE (py_get cat (ascii ''levels'') (JArr [])) (\<lambda>levels.
       if truthy L levels
       then bindE (py_iter levels) (\<lambda>level_list.
            bindE (level_names L level_list) (\<lambda>names.
              if names \<noteq> []
              then bindE (py_join (ascii '' > '') names) (\<lambda>joined. Inr (Some joined))
              else Inr None))
       else Inr None)"

fun category_parts :: "'f runtime \<Rightarrow> 'f json list \<Rightarrow> ustr list result" where
  "category_parts L [] = Inr []"
| "category_parts L (cat # cats) =
     bindE (category_part L cat) (\<lambda>part.
     bindE (category_parts L cats) (\<lambda>parts.
       Inr (case part of None \<Rightarrow> parts | Some p \<Rightarrow> p # parts)))"

definition extract_categories_str :: "'f runtime \<Rightarrow> 'f json \<Rightarrow> 'f json result" where
  "extract_categories_str L bundle =
     bindE (py_get bundle (ascii ''categories'') (JArr [])) (\<lambda>categories.
     bindE (py_iter categories) (\<lambda>cats.
     bindE (category_parts L cats) (\<lambda>parts.
       Inr (if parts \<noteq> [] then JStr (str_join (ascii '' | '') parts) else JNull))))"

text \<open>
  \<^verbatim>\<open>
  details = bundle.get('details', {})
  ingredients = None
  nutrition_data = {}
  if details:
      features = details.get('features', [])
      ingredients = self.extract_ingredients(features)
      nutrition_table = details.get('nutritionalTable', {})
      if nutrition_table:
          nutrition_data = { ... }
          ...
  \<close>
\<close>

definition extract_details ::
  "'f runtime \<Rightarrow> 'f json \<Rightarrow> ('f json \<times> 'f nutrition_data) result" where
  "extract_details L bundle =
     bindE (py_get bundle (ascii ''details'') (JObj [])) (\<lambda>details.
       if truthy L details
       then bindE (py_get details (ascii ''features'') (JArr [])) (\<lambda>features.
            bindE (extract_ingredients L features) (\<lambda>ingredients.
            bindE (py_get details (ascii ''nutritionalTable'') (JObj [])) (\<lambda>nutrition_table.
              if truthy L nutrition_table
              then bindE (extract_nutrition L nutrition_table) (\<lambda>nutrition_data.
                     Inr (ingredients, nutrition_data))
              else Inr (ingredients, []))))
       else Inr (JNull, []))"

text \<open>\<^verbatim>\<open>x or None\<close>.\<close>

definition py_or_none :: "'f runtime \<Rightarrow> 'f json \<Rightarrow> 'f json" where
  "py_or_none L v = (if truthy L v then v else JNull)"

text \<open>
  The dict of the \<^verbatim>\<open>return\<close> statement:
  \<^verbatim>\<open>
  return {
      'code': code,
      'product_name': product_name or None,
      'quantity': quantity,
      'brand': brand or None,
      'categories': categories_str,
      'ingredients': ingredients,
      'image_url': image_url,
      'nutriscore_grade': None,  # Metro doesn't have nutriscore
      'energy_100g': nutrition_data.get('energy_100g'),
      ...
      'sodium_100g': nutrition_data.get('sodium_100g')
  }
  \<close>
  The text columns hold a payload value, \<open>JNull\<close> for \<^verbatim>\<open>None\<close>.
\<close>

type_synonym 'f product = "('f json, 'f json, 'f option) flat_product"

definition product_record ::
  "'f runtime \<Rightarrow> 'f json \<Rightarrow> 'f json \<Rightarrow> 'f json \<Rightarrow> 'f json \<Rightarrow> 'f json \<Rightarrow> 'f json \<Rightarrow> 'f json
     \<Rightarrow> 'f nutrition_data \<Rightarrow> 'f product" where
  "product_record L =
     (\<lambda>code product_name quantity brand categories_str ingredients image_url nutrition_data.
       \<lparr> code = code,
         product_name = py_or_none L product_name,
         quantity = quantity,
         brand = py_or_none L brand,
         categories = categories_str,
         ingredients = ingredients,
         image_url = image_url,
         nutriscore_grade = JNull,
         energy_100g = nutrition_get nutrition_data (ascii ''energy_100g''),
         fat_100g = nutrition_get nutrition_data (ascii ''fat_100g''),
         saturated_fat_100g = nutrition_get nutrition_data (ascii ''saturated_fat_100g''),
         proteins_100g = nutrition_get nutrition_data (ascii ''proteins_100g''),
         carbohydrates_100g = nutrition_get nutrition_data (ascii ''carbohydrates_100g''),
         sugars_100g = nutrition_get nutrition_data (ascii ''sugars_100g''),
         fiber_100g = nutrition_get nutrition_data (ascii ''fiber_100g''),
         sodium_100g = nutrition_get nutrition_data (ascii ''sodium_100g'') \<rparr>)"

text \<open>
  The rest of the \<^verbatim>\<open>try\<close> block of \<^verbatim>\<open>extract_product_data\<close>, from the barcode to the
  returned dict. \<open>None\<close> is the early return \<^verbatim>\<open>if not code: return None\<close>.
\<close>

definition extract_bundle :: "'f runtime \<Rightarrow> 'f json \<Rightarrow> 'f product option result" where
  "extract_bundle L bundle =
     bindE (extract_code L bundle) (\<lambda>code.
       if \<not> truthy L code then Inr None
       else
     bindE (py_get bundle (ascii ''description'') (JStr [])) (\<lambda>product_name.
     bindE (py_get bundle (ascii ''brandName'') (JStr [])) (\<lambda>brand.
     bindE (extract_quantity L bundle) (\<lambda>quantity.
     bindE (extract_categories_str L bundle) (\<lambda>categories_str.
     bindE (py_get bundle (ascii ''imageUrl'') JNull) (\<lambda>image_small.
     bindE (if truthy L image_small then Inr image_small
            else py_get bundle (ascii ''imageUrlL'') JNull) (\<lambda>image_url.
     bindE (extract_details L bundle) (\<lambda>details.
       Inr (Some (product_record L code product_name quantity brand categories_str
                    (fst details) image_url (snd details)))))))))))"

definition extract_product_body :: "'f runtime \<Rightarrow> 'f json \<Rightarrow> 'f product option result" where
  "extract_product_body L article_data =
     bindE (locate_bundle L article_data) (\<lambda>located.
       case located of
         None \<Rightarrow> Inr None
       | Some bundle \<Rightarrow> extract_bundle L bundle)"

text \<open>
  \<^verbatim>\<open>
  def extract_product_data(self, article_data: Dict) -> Optional[Dict]:
      try:
          ...
      except Exception as e:
          self.logger.error(f"Error extracting product data: {e}")
          return None
  \<close>
\<close>

definition extract_product_data :: "'f runtime \<Rightarrow> 'f json \<Rightarrow> 'f product option" where
  "extract_product_data L article_data =
     (case extract_product_body L article_data of Inl e \<Rightarrow> None | Inr product \<Rightarrow> product)"

section \<open>Bulk loader\<close>

text \<open>
  A row of \<^verbatim>\<open>public.metro_source\<close>: the sixteen columns and \<^verbatim>\<open>created_at\<close>. The values of
  the columns other than \<^verbatim>\<open>code\<close> are of a type \<open>'v\<close> that has the SQL null; \<^verbatim>\<open>code\<close> carries
  the unique index that \<^verbatim>\<open>ON CONFLICT (code)\<close> needs.
\<close>

record ('v, 'ts) metro_row = "(ustr, 'v, 'v) flat_product" +
  created_at :: 'ts

text \<open>\<^verbatim>\<open>DELETE FROM public.metro_source\<close>.\<close>

definition sql_delete_all :: "('v, 'ts) metro_row list \<Rightarrow> ('v, 'ts) metro_row list" where
  "sql_delete_all tbl = []"

text \<open>
  The row that \<^verbatim>\<open>INSERT INTO public.metro_source (code, product_name, ...) VALUES ...\<close>
  stores for a proposed row when no row has its code; \<^verbatim>\<open>created_at\<close> is not among the
  inserted columns and takes the column's default.
\<close>

definition sql_insert :: "'ts \<Rightarrow> (ustr, 'v, 'v) flat_product \<Rightarrow> ('v, 'ts) metro_row" where
  "sql_insert dflt r =
     \<lparr> code = code r, product_name = product_name r, quantity = quantity r, brand = brand r,
       categories = categories r, ingredients = ingredients r, image_url = image_url r,
       nutriscore_grade = nutriscore_grade r, energy_100g = energy_100g r,
       fat_100g = fat_100g r, saturated_fat_100g = saturated_fat_100g r,
       proteins_100g = proteins_100g r, carbohydrates_100g = carbohydrates_100g r,
       sugars_100g = sugars_100g r, fiber_100g = fiber_100g r, sodium_100g = sodium_100g r,
       created_at = dflt \<rparr>"

text \<open>
  \<^verbatim>\<open>
  ON CONFLICT (code) DO UPDATE SET
      product_name = EXCLUDED.product_name,
      quantity = EXCLUDED.quantity,
      brand = EXCLUDED.brand,
      categories = EXCLUDED.categories,
      ingredients = EXCLUDED.ingredients,
      image_url = EXCLUDED.image_url,
      nutriscore_grade = EXCLUDED.nutriscore_grade,
      energy_100g = EXCLUDED.energy_100g,
      fat_100g = EXCLUDED.fat_100g,
      saturated_fat_100g = EXCLUDED.saturated_fat_100g,
      proteins_100g = EXCLUDED.proteins_100g,
      carbohydrates_100g = EXCLUDED.carbohydrates_100g,
      sugars_100g = EXCLUDED.sugars_100g,
      fiber_100g = EXCLUDED.fiber_100g,
      sodium_100g = EXCLUDED.sodium_100g,
      created_at = now()
  \<close>
\<close>

definition sql_do_update ::
  "'ts \<Rightarrow> ('v, 'ts) metro_row \<Rightarrow> (ustr, 'v, 'v) flat_product \<Rightarrow> ('v, 'ts) metro_row" where
  "sql_do_update now old excluded =
     old \<lparr> product_name := product_name excluded,
           quantity := quantity excluded,
           brand := brand excluded,
           categories := categories excluded,
           ingredients := ingredients excluded,
           image_url := image_url excluded,
           nutriscore_grade := nutriscore_grade excluded,
           energy_100g := energy_100g excluded,
           fat_100g := fat_100g excluded,
           saturated_fat_100g := saturated_fat_100g excluded,
           proteins_100g := proteins_100g excluded,
           carbohydrates_100g := carbohydrates_100g excluded,
           sugars_100g := sugars_100g excluded,
           fiber_100g := fiber_100g excluded,
           sodium_100g := sodium_100g excluded,
           created_at := now \<rparr>"

text \<open>One proposed row against the table: the row with its code is updated, or it is added.\<close>

fun upsert_row ::
  "'ts \<Rightarrow> 'ts \<Rightarrow> (ustr, 'v, 'v) flat_product \<Rightarrow> ('v, 'ts) metro_row list
     \<Rightarrow> ('v, 'ts) metro_row list" where
  "upsert_row dflt now r [] = [sql_insert dflt r]"
| "upsert_row dflt now r (old # tbl) =
     (if code old = code r then sql_do_update now old r # tbl
      else old # upsert_row dflt now r tbl)"

text \<open>
  One \<^verbatim>\<open>INSERT ... VALUES ... ON CONFLICT (code) DO UPDATE\<close> statement. PostgreSQL refuses
  a statement that proposes two rows with the same key (the command cannot affect a row
  a second time): \<open>None\<close> is that error.
\<close>

definition insert_on_conflict ::
  "'ts \<Rightarrow> 'ts \<Rightarrow> (ustr, 'v, 'v) flat_product list \<Rightarrow> ('v, 'ts) metro_row list
     \<Rightarrow> ('v, 'ts) metro_row list option" where
  "insert_on_conflict dflt now page tbl =
     (if distinct (map code page) then Some (foldl (\<lambda>t r. upsert_row dflt now r t) tbl page)
      else None)"

text \<open>
  Consecutive slices of \<open>n\<close> elements, as \<^verbatim>\<open>df.iloc[i:i + batch_size]\<close> takes them for
  \<^verbatim>\<open>i in range(0, total_rows, batch_size)\<close>.
\<close>

fun chunks :: "nat \<Rightarrow> 'a list \<Rightarrow> 'a list list" where
  "chunks n xs = (if n = 0 \<or> xs = [] then [] else take n xs # chunks n (drop n xs))"

declare chunks.simps [simp del]

text \<open>
  \<^verbatim>\<open>execute_values(cur, insert_sql, batch_data)\<close> of psycopg2 with its default page size:
  one statement for every 100 rows of the batch, in order.
\<close>

fun execute_pages ::
  "'ts \<Rightarrow> 'ts \<Rightarrow> (ustr, 'v, 'v) flat_product list list \<Rightarrow> ('v, 'ts) metro_row list
     \<Rightarrow> ('v, 'ts) metro_row list option" where
  "execute_pages dflt now [] tbl = Some tbl"
| "execute_pages dflt now (page # pages) tbl =
     (case insert_on_conflict dflt now page tbl of
        None \<Rightarrow> None
      | Some tbl' \<Rightarrow> execute_pages dflt now pages tbl')"

definition execute_values ::
  "'ts \<Rightarrow> 'ts \<Rightarrow> (ustr, 'v, 'v) flat_product list \<Rightarrow> ('v, 'ts) metro_row list
     \<Rightarrow> ('v, 'ts) metro_row list option" where
  "execute_values dflt now argslist tbl = execute_pages dflt now (chunks 100 argslist) tbl"

text \<open>
  A psycopg2 connection without autocommit: the statements of the open transaction act on
  \<open>pending\<close>, \<^verbatim>\<open>commit()\<close> makes it the stored table, \<^verbatim>\<open>rollback()\<close> and \<^verbatim>\<open>close()\<close> drop
  it.
\<close>

record ('v, 'ts) connection =
  committed :: "('v, 'ts) metro_row list"
  pending :: "('v, 'ts) metro_row list"

text \<open>
  \<^verbatim>\<open>
  for i in range(0, total_rows, batch_size):
      batch_df = df.iloc[i:i + batch_size]
      ...
      execute_values(cur, insert_sql, batch_data)
      conn.commit()
  \<close>
  with the \<^verbatim>\<open>except\<close> branch (\<^verbatim>\<open>conn.rollback(); return False\<close>) for a statement that
  fails. \<open>clock i\<close> is \<^verbatim>\<open>now()\<close> in the transaction of batch \<open>i\<close>.
\<close>

fun import_batches ::
  "'ts \<Rightarrow> (nat \<Rightarrow> 'ts) \<Rightarrow> nat \<Rightarrow> (ustr, 'v, 'v) flat_product list list \<Rightarrow> ('v, 'ts) connection
     \<Rightarrow> bool \<times> ('v, 'ts) connection" where
  "import_batches dflt clock i [] conn = (True, conn)"
| "import_batches dflt clock i (batch_data # batches) conn =
     (case execute_values dflt (clock i) batch_data (pending conn) of
        None \<Rightarrow> (False, conn \<lparr> pending := committed conn \<rparr>)
      | Some tbl \<Rightarrow>
          import_batches dflt clock (Suc i) batches \<lparr> committed = tbl, pending = tbl \<rparr>)"

text \<open>
  \<^verbatim>\<open>import_csv_to_metro_source\<close> from the cleaned frame \<open>df\<close> on, for a file that exists
  and a server that answers: the result of the method and the table that is stored
  after \<^verbatim>\<open>conn.close()\<close>.
  \<^verbatim>\<open>
  cur = conn.cursor()
  cur.execute("DELETE FROM public.metro_source")
  ...
  for i in range(0, total_rows, batch_size): ...
  return True
  \<close>
  \<^verbatim>\<open>range\<close> raises \<^verbatim>\<open>ValueError\<close> for a step of 0, which the \<^verbatim>\<open>except\<close> branch turns into
  \<^verbatim>\<open>False\<close>.
\<close>

definition import_csv_to_metro_source ::
  "'ts \<Rightarrow> (nat \<Rightarrow> 'ts) \<Rightarrow> nat \<Rightarrow> (ustr, 'v, 'v) flat_product list \<Rightarrow> ('v, 'ts) metro_row list
     \<Rightarrow> bool \<times> ('v, 'ts) metro_row list" where
  "import_csv_to_metro_source dflt clock batch_size df db =
     (if batch_size = 0 then (False, db)
      else case import_batches dflt clock 0 (chunks batch_size df)
                  \<lparr> committed = db, pending = sql_delete_all db \<rparr> of
             (ok, conn) \<Rightarrow> (ok, committed conn))"

section \<open>Registry reconciler\<close>

text \<open>
  The table \<^verbatim>\<open>public.food_item_sources\<close>: rows of a code and an array of source tags.
\<close>

type_synonym registry = "(ustr \<times> ustr list) list"

definition metro_tag :: ustr where
  "metro_tag = ascii ''metro''"

text \<open>
  \<^verbatim>\<open>
  UPDATE public.food_item_sources
  SET sources = array_append(sources, 'metro')
  WHERE EXISTS (SELECT 1 FROM public.metro_source m WHERE m.code = food_item_sources.code)
    AND NOT ('metro' = ANY (sources))
  \<close>
\<close>

definition needs_tag :: "('v, 'ts) metro_row list \<Rightarrow> ustr \<times> ustr list \<Rightarrow> bool" where
  "needs_tag metro_source fis =
     (fst fis \<in> set (map code metro_source) \<and> metro_tag \<notin> set (snd fis))"

definition tag_existing :: "('v, 'ts) metro_row list \<Rightarrow> registry \<Rightarrow> registry" where
  "tag_existing metro_source food_item_sources =
     map (\<lambda>fis. if needs_tag metro_source fis then (fst fis, snd fis @ [metro_tag]) else fis)
       food_item_sources"

text \<open>
  \<^verbatim>\<open>
  INSERT INTO public.food_item_sources (code, sources)
  SELECT m.code, ARRAY['metro'] ::character varying[]
  FROM public.metro_source m
  WHERE NOT EXISTS (SELECT 1 FROM public.food_item_sources fis WHERE fis.code = m.code)
  \<close>
  The query is evaluated on the table as it is before the statement.
\<close>

definition is_new :: "registry \<Rightarrow> ('v, 'ts) metro_row \<Rightarrow> bool" where
  "is_new food_item_sources m = (code m \<notin> set (map fst food_item_sources))"

definition insert_new :: "('v, 'ts) metro_row list \<Rightarrow> registry \<Rightarrow> registry" where
  "insert_new metro_source food_item_sources =
     food_item_sources
       @ map (\<lambda>m. (code m, [metro_tag])) (filter (is_new food_item_sources) metro_source)"

text \<open>
  \<^verbatim>\<open>update_food_item_sources\<close> in a run whose statements all succeed: the registry after
  the two committed statements, and the two values of \<^verbatim>\<open>cur.rowcount\<close> that the method
  logs as the numbers of updated and of inserted rows.
\<close>

record reconciliation =
  registry_after :: registry
  updated_count :: nat
  inserted_count :: nat

definition update_food_item_sources ::
  "('v, 'ts) metro_row list \<Rightarrow> registry \<Rightarrow> reconciliation" where
  "update_food_item_sources metro_source food_item_sources =
     (let tagged = tag_existing metro_source food_item_sources
      in \<lparr> registry_after = insert_new metro_source tagged,
           updated_count = length (filter (needs_tag metro_source) food_item_sources),
           inserted_count = length (filter (is_new tagged) metro_source) \<rparr>)"

section \<open>The loop over the rows of a nutrition table\<close>

text \<open>A row on which the loop goes on has no effect on the result.\<close>

lemma scan_rows_skip:
  "scan_row L kws unit row = Inr None \<Longrightarrow>
     scan_rows L kws unit (pre @ row # post) = scan_rows L kws unit (pre @ post)"
  by (induction pre) (auto simp: bindE_def split: sum.splits option.splits)

text \<open>The loop returns a value exactly at the first row whose turn returns one.\<close>

lemma scan_rows_Some:
  "scan_rows L kws unit rows = Inr (Some v) \<Longrightarrow>
     \<exists>pre row post. rows = pre @ row # post
       \<and> (\<forall>r\<in>set pre. scan_row L kws unit r = Inr None)
       \<and> scan_row L kws unit row = Inr (Some v)"
proof (induction rows)
  case Nil
  then show ?case by simp
next
  case (Cons r rows)
  from Cons.prems obtain found where r: "scan_row L kws unit r = Inr found"
    and rest: "(case found of Some x \<Rightarrow> Inr (Some x)
                | None \<Rightarrow> scan_rows L kws unit rows) = Inr (Some v)"
    by (auto simp: bindE_Inr_iff)
  show ?case
  proof (cases found)
    case (Some x)
    with r rest have "scan_row L kws unit r = Inr (Some v)" by simp
    then show ?thesis by (intro exI [of _ "[]"] exI [of _ r] exI [of _ rows]) simp
  next
    case None
    with rest have "scan_rows L kws unit rows = Inr (Some v)" by simp
    from Cons.IH [OF this] obtain pre row post
      where "rows = pre @ row # post" "\<forall>x\<in>set pre. scan_row L kws unit x = Inr None"
        "scan_row L kws unit row = Inr (Some v)"
      by blast
    with r None show ?thesis
      by (intro exI [of _ "r # pre"] exI [of _ row] exI [of _ post]) simp
  qed
qed

lemma scan_rows_None:
  "scan_rows L kws unit rows = Inr None \<Longrightarrow> \<forall>r\<in>set rows. scan_row L kws unit r = Inr None"
proof (induction rows)
  case Nil
  then show ?case by simp
next
  case (Cons r rows)
  from Cons.prems obtain found where r: "scan_row L kws unit r = Inr found"
    and rest: "(case found of Some x \<Rightarrow> Inr (Some x)
                | None \<Rightarrow> scan_rows L kws unit rows) = Inr None"
    by (auto simp: bindE_Inr_iff)
  from rest have "found = None" "scan_rows L kws unit rows = Inr None"
    by (cases found; simp)+
  with r Cons.IH show ?case by simp
qed

text \<open>What the method computes once the table has rows.\<close>

lemma extract_nutritional_value_rows:
  "extract_nutritional_value L t kws unit = Inr r \<Longrightarrow>
     r = None \<and> (\<not> truthy L t \<or> py_in (ascii ''rows'') t = Inr False)
     \<or> (\<exists>rows row_list. py_getitem t (ascii ''rows'') = Inr rows
           \<and> py_iter rows = Inr row_list \<and> scan_rows L kws unit row_list = Inr r)"
  by (auto simp: extract_nutritional_value_def bindE_Inr_iff split: if_splits)

lemma extract_nutritional_value_table:
  "extract_nutritional_value L (JObj [(ascii ''rows'', JArr row_list)]) kws unit
     = scan_rows L kws unit row_list"
  by (simp add: extract_nutritional_value_def)

text \<open>
  The requested unit asks for milligrams: it is given, not empty, and reads \<^verbatim>\<open>mg\<close> in
  lower case.
\<close>

definition wants_mg :: "'f runtime \<Rightarrow> ustr option \<Rightarrow> bool" where
  "wants_mg L unit = (case unit of None \<Rightarrow> False | Some u \<Rightarrow> u \<noteq> [] \<and> str_lower L u = ascii ''mg'')"

lemma reconcile_unit_eq:
  "reconcile_unit L unit cell_unit value =
     (if wants_mg L unit \<and> cell_unit = ascii ''g'' then float_times_1000 L value else value)"
  by (auto simp: reconcile_unit_def wants_mg_def ascii_def split: option.splits)

text \<open>
  What the first cell of \<open>cells\<close> reads: its numeric value and its unit in lower case.
\<close>

definition first_cell_reading :: "'f runtime \<Rightarrow> 'f json \<Rightarrow> ('f \<times> ustr) result" where
  "first_cell_reading L cells =
     bindE (py_first cells) (\<lambda>cell.
     bindE (py_get cell (ascii ''value'') (JStr [])) (\<lambda>raw.
     bindE (py_float L raw) (\<lambda>value.
     bindE (py_get cell (ascii ''unitOfMeasure'') (JStr [])) (\<lambda>raw_unit.
     bindE (py_lower L raw_unit) (\<lambda>cell_unit.
       Inr (value, cell_unit))))))"

lemma cell_value_reading:
  "cell_value L unit cells =
     bindE (first_cell_reading L cells) (\<lambda>reading.
       Inr (if wants_mg L unit \<and> snd reading = ascii ''g''
            then float_times_1000 L (fst reading) else fst reading))"
  by (cases "py_first cells")
     (auto simp: cell_value_def first_cell_reading_def reconcile_unit_eq bindE_def
       split: sum.splits)

lemma cell_value_no_mg:
  "\<not> wants_mg L unit \<Longrightarrow> cell_value L unit cells = cell_value L None cells"
  by (simp add: cell_value_reading wants_mg_def)

lemma scan_row_no_mg:
  assumes "\<not> wants_mg L unit"
  shows "scan_row L kws unit row = scan_row L kws None row"
  unfolding scan_row_def cell_value_no_mg [OF assms] ..

lemma scan_rows_no_mg:
  assumes "\<not> wants_mg L unit"
  shows "scan_rows L kws unit rows = scan_rows L kws None rows"
proof (induction rows)
  case Nil
  show ?case by simp
next
  case (Cons r rows)
  show ?case
    unfolding scan_rows.simps scan_row_no_mg [OF assms] Cons.IH ..
qed

lemma extract_nutritional_value_no_mg:
  assumes "\<not> wants_mg L unit"
  shows "extract_nutritional_value L t kws unit = extract_nutritional_value L t kws None"
  unfolding extract_nutritional_value_def scan_rows_no_mg [OF assms] ..

text \<open>A turn of the loop that returns a value read it from the first cell of its row.\<close>

lemma scan_row_Some:
  assumes "scan_row L kws unit row = Inr (Some v)"
  shows "\<exists>label cells cell raw.
       py_get row (ascii ''rowLabel'') (JStr []) = Inr (JStr label)
     \<and> list_ex (\<lambda>keyword. str_contains keyword (str_lower L label)) kws
     \<and> py_get row (ascii ''cells'') (JArr []) = Inr cells
     \<and> py_first cells = Inr cell
     \<and> py_get cell (ascii ''value'') JNull = Inr raw \<and> truthy L raw
     \<and> cell_value L unit cells = Inr v"
proof -
  from assms obtain lab row_label cells
    where lab: "py_get row (ascii ''rowLabel'') (JStr []) = Inr lab"
      and low: "py_lower L lab = Inr row_label"
      and cells: "py_get row (ascii ''cells'') (JArr []) = Inr cells"
      and rest: "(if list_ex (\<lambda>keyword. str_contains keyword row_label) kws
       then bindE (py_len cells) (\<lambda>n.
              if n \<ge> 1
              then bindE (py_first cells) (\<lambda>cell.
                   bindE (py_get cell (ascii ''value'') JNull) (\<lambda>v.
                     if truthy L v
                     then (case cell_value L unit cells of
                             Inr x \<Rightarrow> Inr (Some x)
                           | Inl e \<Rightarrow>
                               if e = ValueError \<or> e = TypeError then Inr None else Inl e)
                     else Inr None))
              else Inr None)
       else Inr None) = Inr (Some v)"
    unfolding scan_row_def bindE_Inr_iff by blast
  from low obtain label where label: "lab = JStr label" "row_label = str_lower L label"
    by (cases lab) auto
  from rest have kw: "list_ex (\<lambda>keyword. str_contains keyword row_label) kws"
    by (simp split: if_splits)
  with rest obtain cell raw
    where "py_first cells = Inr cell" "py_get cell (ascii ''value'') JNull = Inr raw"
      "truthy L raw" "cell_value L unit cells = Inr v"
    by (auto simp: bindE_Inr_iff split: if_splits sum.splits)
  with lab label kw cells show ?thesis by blast
qed

section \<open>Payloads for the examples\<close>

text \<open>
  A nutrition row with one cell, a nutrition table, and an article with one variant and
  one bundle that carries the barcode \<^verbatim>\<open>5901234123457\<close> and the given further items.
\<close>

definition row_of :: "ustr \<Rightarrow> rat json \<Rightarrow> string \<Rightarrow> rat json" where
  "row_of label v unit =
     JObj [(ascii ''rowLabel'', JStr label),
           (ascii ''cells'', JArr [JObj [(ascii ''value'', v),
                                        (ascii ''unitOfMeasure'', JStr (ascii unit))]])]"

definition table_of_rows :: "rat json list \<Rightarrow> rat json" where
  "table_of_rows rows = JObj [(ascii ''rows'', JArr rows)]"

definition article_with_bundle :: "rat json \<Rightarrow> rat json" where
  "article_with_bundle bundle =
     JObj [(ascii ''variants'',
            JObj [(ascii ''0032'',
                   JObj [(ascii ''bundles'', JObj [(ascii ''0021'', bundle)])])])]"

definition barcode_bundle :: "(ustr \<times> rat json) list \<Rightarrow> rat json" where
  "barcode_bundle items =
     JObj ((ascii ''eanNumber'', JArr [JObj [(ascii ''number'', JStr (ascii ''5901234123457''))]])
           # items)"

text \<open>
  The labels of the examples, by code points: \<^verbatim>\<open>Energiyna stoynost\<close>, \<^verbatim>\<open>Maznini\<close> and
  \<^verbatim>\<open>Nasiteni maznini\<close> in Cyrillic, each with a capital first letter.
\<close>

definition label_energy :: ustr where
  "label_energy = [1045, 1085, 1077, 1088, 1075, 1080, 1081, 1085, 1072, 32,
                   1089, 1090, 1086, 1081, 1085, 1086, 1089, 1090]"

definition label_fat :: ustr where
  "label_fat = [1052, 1072, 1079, 1085, 1080, 1085, 1080]"

definition label_saturated_fat :: ustr where
  "label_saturated_fat = [1053, 1072, 1089, 1080, 1090, 1077, 1085, 1080, 32,
                          1084, 1072, 1079, 1085, 1080, 1085, 1080]"

lemmas example_defs =
  ascii_def py0_def chr_lower0_def chr_isdigit0_def chr_isspace0_def str_strip0_def
  float_of_str0_def is_decimal_def decimal_def row_of_def table_of_rows_def
  article_with_bundle_def barcode_bundle_def label_energy_def label_fat_def
  label_saturated_fat_def kw_energy_def kw_fat_def kw_saturated_def kw_proteins_def
  kw_carbohydrates_def kw_sugars_def kw_fiber_def

lemmas extractor_defs =
  extract_nutritional_value_def scan_row_def cell_value_def reconcile_unit_def

lemmas product_defs =
  extract_product_data_def extract_product_body_def locate_bundle_def extract_bundle_def
  extract_code_def extract_quantity_def extract_categories_str_def extract_details_def
  extract_ingredients_def extract_nutrition_def energy_fallback_def nutrition_get_def
  product_record_def py_or_none_def

section \<open>From the payload to the record\<close>

text \<open>
  A record is returned only from the bundle that \<open>locate_bundle\<close> finds, with the barcode
  that \<open>extract_code\<close> reads and the nutrition values that \<open>extract_details\<close> collects.
\<close>

lemma extract_product_data_Some:
  "extract_product_data L a = Some p \<Longrightarrow>
     \<exists>bundle. locate_bundle L a = Inr (Some bundle) \<and> extract_bundle L bundle = Inr (Some p)"
  by (auto simp: extract_product_data_def extract_product_body_def bindE_Inr_iff
      split: sum.splits option.splits)

lemma extract_bundle_Some:
  assumes "extract_bundle L bundle = Inr (Some p)"
  shows "\<exists>details. extract_code L bundle = Inr (code p) \<and> truthy L (code p)
     \<and> extract_details L bundle = Inr details
     \<and> energy_100g p = nutrition_get (snd details) (ascii ''energy_100g'')
     \<and> fat_100g p = nutrition_get (snd details) (ascii ''fat_100g'')
     \<and> saturated_fat_100g p = nutrition_get (snd details) (ascii ''saturated_fat_100g'')
     \<and> proteins_100g p = nutrition_get (snd details) (ascii ''proteins_100g'')
     \<and> carbohydrates_100g p = nutrition_get (snd details) (ascii ''carbohydrates_100g'')
     \<and> sugars_100g p = nutrition_get (snd details) (ascii ''sugars_100g'')
     \<and> fiber_100g p = nutrition_get (snd details) (ascii ''fiber_100g'')
     \<and> sodium_100g p = nutrition_get (snd details) (ascii ''sodium_100g'')"
proof -
  from assms obtain c where c: "extract_code L bundle = Inr c"
    and rest: "(if \<not> truthy L c then Inr None
       else
     bindE (py_get bundle (ascii ''description'') (JStr [])) (\<lambda>product_name.
     bindE (py_get bundle (ascii ''brandName'') (JStr [])) (\<lambda>brand.
     bindE (extract_quantity L bundle) (\<lambda>quantity.
     bindE (extract_categories_str L bundle) (\<lambda>categories_str.
     bindE (py_get bundle (ascii ''imageUrl'') JNull) (\<lambda>image_small.
     bindE (if truthy L image_small then Inr image_small
            else py_get bundle (ascii ''imageUrlL'') JNull) (\<lambda>image_url.
     bindE (extract_details L bundle) (\<lambda>details.
       Inr (Some (product_record L c product_name quantity brand categories_str
                    (fst details) image_url (snd details)))))))))))
      = Inr (Some p)"
    unfolding extract_bundle_def bindE_Inr_iff by blast
  have t: "truthy L c"
  proof (rule ccontr)
    assume "\<not> truthy L c"
    with rest show False by simp
  qed
  from rest obtain n b q cs u details
    where details: "extract_details L bundle = Inr details"
      and p: "p = product_record L c n q b cs (fst details) u (snd details)"
    unfolding bindE_Inr_iff if_not_P [OF iffD2 [OF not_not t]] by blast
  from p have "code p = c"
    and "energy_100g p = nutrition_get (snd details) (ascii ''energy_100g'')"
    and "fat_100g p = nutrition_get (snd details) (ascii ''fat_100g'')"
    and "saturated_fat_100g p = nutrition_get (snd details) (ascii ''saturated_fat_100g'')"
    and "proteins_100g p = nutrition_get (snd details) (ascii ''proteins_100g'')"
    and "carbohydrates_100g p = nutrition_get (snd details) (ascii ''carbohydrates_100g'')"
    and "sugars_100g p = nutrition_get (snd details) (ascii ''sugars_100g'')"
    and "fiber_100g p = nutrition_get (snd details) (ascii ''fiber_100g'')"
    and "sodium_100g p = nutrition_get (snd details) (ascii ''sodium_100g'')"
    by (simp_all add: product_record_def)
  with c t details show ?thesis by blast
qed

text \<open>
  The bundle has no nutrition table: \<^verbatim>\<open>details\<close> is missing or empty, or its
  \<^verbatim>\<open>nutritionalTable\<close> is.
\<close>

definition no_nutrition_table :: "'f runtime \<Rightarrow> 'f json \<Rightarrow> bool" where
  "no_nutrition_table L bundle =
     (case py_get bundle (ascii ''details'') (JObj []) of
        Inl e \<Rightarrow> False
      | Inr details \<Rightarrow>
          \<not> truthy L details
          \<or> (case py_get details (ascii ''nutritionalTable'') (JObj []) of
                Inl e \<Rightarrow> False
              | Inr nutrition_table \<Rightarrow> \<not> truthy L nutrition_table))"

lemma extract_details_no_table:
  "extract_details L bundle = Inr details \<Longrightarrow> no_nutrition_table L bundle \<Longrightarrow> snd details = []"
  by (auto simp: extract_details_def no_nutrition_table_def bindE_Inr_iff
      split: if_splits sum.splits)

lemma extract_details_table:
  "extract_details L bundle = Inr details \<Longrightarrow>
   py_get bundle (ascii ''details'') (JObj []) = Inr d \<Longrightarrow> truthy L d \<Longrightarrow>
   py_get d (ascii ''nutritionalTable'') (JObj []) = Inr t \<Longrightarrow> truthy L t \<Longrightarrow>
     extract_nutrition L t = Inr (snd details)"
  by (auto simp: extract_details_def bindE_Inr_iff split: if_splits)

text \<open>The dict of the eight lookups, before the fallback.\<close>

lemma extract_nutrition_Inr:
  assumes "extract_nutrition L t = Inr nd"
  shows "\<exists>energy fat saturated_fat proteins carbohydrates sugars fiber sodium.
      extract_nutritional_value L t [kw_energy] (Some (ascii ''kcal'')) = Inr energy
    \<and> energy_fallback L t
         [(ascii ''energy_100g'', energy),
          (ascii ''fat_100g'', fat),
          (ascii ''saturated_fat_100g'', saturated_fat),
          (ascii ''proteins_100g'', proteins),
          (ascii ''carbohydrates_100g'', carbohydrates),
          (ascii ''sugars_100g'', sugars),
          (ascii ''fiber_100g'', fiber),
          (ascii ''sodium_100g'', sodium)] = Inr nd"
  using assms unfolding extract_nutrition_def bindE_Inr_iff by blast

lemma nutrition_get_head: "nutrition_get ((k, v) # others) k = v"
  by (simp add: nutrition_get_def)

lemma nutrition_get_update: "nutrition_get (AList.update k v ((k, w) # others)) k = v"
  by (simp add: nutrition_get_def)

lemma energy_fallback_energy:
  assumes "energy_fallback L t ((ascii ''energy_100g'', e) # others) = Inr nd"
  shows "if float_opt_truthy L e then nutrition_get nd (ascii ''energy_100g'') = e
     else (\<exists>kj. extract_nutritional_value L t [kw_energy] (Some (ascii ''kJ'')) = Inr kj
            \<and> nutrition_get nd (ascii ''energy_100g'')
                = (if float_opt_truthy L kj then map_option (float_kj_to_kcal L) kj else e))"
proof (cases "float_opt_truthy L e")
  case True
  with assms have "nd = (ascii ''energy_100g'', e) # others"
    by (simp add: energy_fallback_def nutrition_get_head)
  then have "nutrition_get nd (ascii ''energy_100g'') = e"
    by (simp only: nutrition_get_head)
  with True show ?thesis by (simp only: if_True)
next
  case False
  with assms
  have "bindE (extract_nutritional_value L t [kw_energy] (Some (ascii ''kJ'')))
          (\<lambda>energy_kj.
               case energy_kj of
                 None \<Rightarrow> Inr ((ascii ''energy_100g'', e) # others)
               | Some k \<Rightarrow>
                   if float_truthy L k
                   then Inr (AList.update (ascii ''energy_100g'') (Some (float_kj_to_kcal L k))
                               ((ascii ''energy_100g'', e) # others))
                   else Inr ((ascii ''energy_100g'', e) # others)) = Inr nd"
    by (simp add: energy_fallback_def nutrition_get_head)
  then obtain kj
    where kj: "extract_nutritional_value L t [kw_energy] (Some (ascii ''kJ'')) = Inr kj"
      and nd: "(case kj of
                 None \<Rightarrow> Inr ((ascii ''energy_100g'', e) # others)
               | Some k \<Rightarrow>
                   if float_truthy L k
                   then Inr (AList.update (ascii ''energy_100g'') (Some (float_kj_to_kcal L k))
                               ((ascii ''energy_100g'', e) # others))
                   else Inr ((ascii ''energy_100g'', e) # others)) = (Inr nd :: pyexc + _)"
    by (rule bindE_InrE)
  have eq: "nutrition_get nd (ascii ''energy_100g'')
      = (if float_opt_truthy L kj then map_option (float_kj_to_kcal L) kj else e)"
  proof (cases kj)
    case None
    with nd show ?thesis by (auto simp: nutrition_get_head)
  next
    case (Some k)
    with nd show ?thesis
      by (cases "float_truthy L k") (auto simp: nutrition_get_head nutrition_get_update)
  qed
  from kj eq
  have "extract_nutritional_value L t [kw_energy] (Some (ascii ''kJ'')) = Inr kj
            \<and> nutrition_get nd (ascii ''energy_100g'')
                = (if float_opt_truthy L kj then map_option (float_kj_to_kcal L) kj else e)"
    by (rule conjI)
  then have "\<exists>kj. extract_nutritional_value L t [kw_energy] (Some (ascii ''kJ'')) = Inr kj
            \<and> nutrition_get nd (ascii ''energy_100g'')
                = (if float_opt_truthy L kj then map_option (float_kj_to_kcal L) kj else e)"
    by (rule exI)
  with False show ?thesis by (simp only: if_False)
qed

section \<open>Energy: the kJ fallback never converts\<close>

text \<open>
  A lookup pays attention to the requested unit only to convert grams to milligrams, so
  the lookups of the energy keyword for \<^verbatim>\<open>kcal\<close> and for \<^verbatim>\<open>kJ\<close> read the same cell and
  return the same number, in every runtime whose \<^verbatim>\<open>lower\<close> does not turn \<^verbatim>\<open>kcal\<close> or
  \<^verbatim>\<open>kJ\<close> into \<^verbatim>\<open>mg\<close>.
\<close>

lemma kcal_and_kj_lookups_agree:
  assumes "str_lower L (ascii ''kcal'') \<noteq> ascii ''mg''"
    and "str_lower L (ascii ''kJ'') \<noteq> ascii ''mg''"
  shows "extract_nutritional_value L t kws (Some (ascii ''kJ''))
     = extract_nutritional_value L t kws (Some (ascii ''kcal''))"
proof -
  from assms have kj: "\<not> wants_mg L (Some (ascii ''kJ''))"
    and kcal: "\<not> wants_mg L (Some (ascii ''kcal''))"
    by (simp_all add: wants_mg_def)
  show ?thesis
    unfolding extract_nutritional_value_no_mg [OF kj] extract_nutritional_value_no_mg [OF kcal] ..
qed

text \<open>
  Hence the fallback is without effect: it runs only when the first lookup gave nothing
  or zero, and then the second lookup gives the same. The energy of the dict is always
  what the lookup for \<^verbatim>\<open>kcal\<close> returned, whatever the unit of the row.
\<close>

lemma energy_is_the_kcal_lookup:
  assumes lower: "str_lower L (ascii ''kcal'') \<noteq> ascii ''mg''"
      "str_lower L (ascii ''kJ'') \<noteq> ascii ''mg''"
    and nd: "extract_nutrition L t = Inr nd"
  shows "extract_nutritional_value L t [kw_energy] (Some (ascii ''kcal''))
     = Inr (nutrition_get nd (ascii ''energy_100g''))"
proof -
  from extract_nutrition_Inr [OF nd] obtain e others
    where e: "extract_nutritional_value L t [kw_energy] (Some (ascii ''kcal'')) = Inr e"
      and fb: "energy_fallback L t ((ascii ''energy_100g'', e) # others) = Inr nd"
    by blast
  from e lower have kj: "extract_nutritional_value L t [kw_energy] (Some (ascii ''kJ'')) = Inr e"
    by (simp add: kcal_and_kj_lookups_agree)
  from energy_fallback_energy [OF fb] kj
  have "nutrition_get nd (ascii ''energy_100g'') = e"
    by (cases "float_opt_truthy L e") auto
  with e show ?thesis by simp
qed

text \<open>
  Claim C1 says that a table whose only energy row reads 1046 kJ yields an energy of
  \<^verbatim>\<open>round(1046 / 4.184, 1) = 250.0\<close>, as the comment of the fallback intends (convert to
  kcal if needed). The code yields 250 for a row of 250 kcal, but 1046 for the row of
  1046 kJ: the lookup for \<^verbatim>\<open>kcal\<close> returns the number of the kJ row as it stands, the
  value is not zero, and the fallback is not entered.
\<close>

theorem energy_of_kj_row_is_not_converted:
  "map_option energy_100g
       (extract_product_data py0
          (article_with_bundle (barcode_bundle
             [(ascii ''details'',
               JObj [(ascii ''nutritionalTable'',
                      table_of_rows [row_of label_energy (JStr (ascii ''250'')) ''kcal''])])])))
     = Some (Some 250)
   \<and> map_option energy_100g
       (extract_product_data py0
          (article_with_bundle (barcode_bundle
             [(ascii ''details'',
               JObj [(ascii ''nutritionalTable'',
                      table_of_rows [row_of label_energy (JStr (ascii ''1046'')) ''kJ''])])])))
     = Some (Some 1046)
   \<and> float_kj_to_kcal py0 1046 = 250"
  by (simp add: product_defs extractor_defs example_defs kj_to_kcal0_def round_half_even_def)

section \<open>Variant identifiers: the conversion strips a four-digit suffix\<close>

text \<open>
  Claim C2. For every variant identifier longer than four characters whose last four
  characters are all digits, \<open>convert_variant_to_article_id\<close> returns the identifier
  without exactly those four characters; every other identifier is returned unchanged.
  The digit test is the runtime's, so the statement holds for every notion of digit.
\<close>

theorem convert_variant_strips_digit_suffix:
  "(4 < length v \<and> list_all (chr_isdigit L) (drop (length v - 4) v) \<longrightarrow>
      convert_variant_to_article_id L v @ drop (length v - 4) v = v
      \<and> length (convert_variant_to_article_id L v) + 4 = length v)
   \<and> (\<not> (4 < length v \<and> list_all (chr_isdigit L) (drop (length v - 4) v)) \<longrightarrow>
      convert_variant_to_article_id L v = v)"
proof -
  have nonempty: "drop (length v - 4) v \<noteq> []" if "4 < length v"
    using that by simp
  show ?thesis
    using nonempty by (auto simp: convert_variant_to_article_id_def str_isdigit_def)
qed

text \<open>
  The two identifiers of the specification: \<^verbatim>\<open>BTY-X2945500032\<close> loses \<^verbatim>\<open>0032\<close>, and
  \<^verbatim>\<open>AB12\<close>, which is not longer than four characters, stays.
\<close>

theorem convert_variant_strips_digit_suffix_witness:
  "convert_variant_to_article_id py0 (ascii ''BTY-X2945500032'') = ascii ''BTY-X294550''
   \<and> convert_variant_to_article_id py0 (ascii ''AB12'') = ascii ''AB12''"
proof -
  have long: "4 < length (ascii ''BTY-X2945500032'')
      \<and> list_all (chr_isdigit py0)
          (drop (length (ascii ''BTY-X2945500032'') - 4) (ascii ''BTY-X2945500032''))"
    by (simp add: ascii_def py0_def chr_isdigit0_def)
  have short: "\<not> (4 < length (ascii ''AB12'')
      \<and> list_all (chr_isdigit py0) (drop (length (ascii ''AB12'') - 4) (ascii ''AB12'')))"
    by (simp add: ascii_def)
  from long convert_variant_strips_digit_suffix [of "ascii ''BTY-X2945500032''" py0]
  have "convert_variant_to_article_id py0 (ascii ''BTY-X2945500032'')
          @ drop (length (ascii ''BTY-X2945500032'') - 4) (ascii ''BTY-X2945500032'')
        = ascii ''BTY-X2945500032''"
    by blast
  then have first: "convert_variant_to_article_id py0 (ascii ''BTY-X2945500032'')
      = ascii ''BTY-X294550''"
    by (simp add: ascii_def)
  from short convert_variant_strips_digit_suffix [of "ascii ''AB12''" py0]
  have second: "convert_variant_to_article_id py0 (ascii ''AB12'') = ascii ''AB12''"
    by blast
  from first second show ?thesis by simp
qed

section \<open>Identifier paginator: where the loop stops and what it returns\<close>

text \<open>
  The identifiers a response delivers: the elements of a non-empty \<^verbatim>\<open>resultIds\<close> that
  can be put in a set. \<open>None\<close> is a response that is missing, malformed or without
  identifiers.
\<close>

definition page_ids :: "'f runtime \<Rightarrow> 'f json \<Rightarrow> 'f json list option" where
  "page_ids L response =
     (if truthy L response \<and> py_in (ascii ''resultIds'') response = Inr True
      then case py_getitem response (ascii ''resultIds'') of
             Inl e \<Rightarrow> None
           | Inr result_ids \<Rightarrow>
               if truthy L result_ids
               then (case py_iter result_ids of
                       Inl e \<Rightarrow> None
                     | Inr xs \<Rightarrow> if list_all hashable xs then Some xs else None)
               else None
      else None)"

definition delivered :: "'f runtime \<Rightarrow> 'f json \<Rightarrow> 'f json set" where
  "delivered L response = (case page_ids L response of None \<Rightarrow> {} | Some xs \<Rightarrow> set xs)"

text \<open>
  The page counter against the total the response declares (1 when it declares none):
  \<open>Inr True\<close> when the counter has reached it, \<open>Inl\<close> when the declared total is not a
  number.
\<close>

definition at_declared_total :: "'f runtime \<Rightarrow> nat \<Rightarrow> 'f json \<Rightarrow> bool result" where
  "at_declared_total L page response =
     bindE (py_get response (ascii ''totalPages'') (JInt 1)) (py_int_ge L (int page))"

text \<open>
  No termination condition holds at a page: the response delivers identifiers, the
  counter is below the declared total, and it is below the safety bound of 100.
\<close>

definition goes_on :: "'f runtime \<Rightarrow> nat \<Rightarrow> 'f json \<Rightarrow> bool" where
  "goes_on L page response =
     (page_ids L response \<noteq> None \<and> at_declared_total L page response = Inr False
      \<and> page < 100)"

lemma page_step_raises:
  assumes "page_step L response page s = Inl e"
  shows "\<not> goes_on L page response"
proof
  assume go: "goes_on L page response"
  then obtain xs where ids: "page_ids L response = Some xs"
    by (auto simp: goes_on_def)
  from go have total: "at_declared_total L page response = Inr False"
    by (simp add: goes_on_def)
  from ids obtain result_ids
    where "truthy L response" "py_in (ascii ''resultIds'') response = Inr True"
      "py_getitem response (ascii ''resultIds'') = Inr result_ids" "truthy L result_ids"
      "py_iter result_ids = Inr xs" "list_all hashable xs"
    by (auto simp: page_ids_def split: if_splits sum.splits)
  moreover from total obtain total_pages
    where "py_get response (ascii ''totalPages'') (JInt 1) = Inr total_pages"
      "py_int_ge L (int page) total_pages = Inr False"
    by (auto simp: at_declared_total_def bindE_Inr_iff)
  ultimately have "\<exists>st. page_step L response page s = Inr st"
    by (simp add: page_step_def py_set_update_def)
  with assms show False by simp
qed

lemma page_step_returns:
  assumes "page_step L response page s = Inr step"
  shows "step = (if goes_on L page response then Continue (s \<union> delivered L response)
                 else Break (s \<union> delivered L response))"
proof (cases "truthy L response \<and> py_in (ascii ''resultIds'') response = Inr True")
  case False
  then have none: "page_ids L response = None" by (auto simp: page_ids_def)
  from False assms have "step = Break s"
    by (auto simp: page_step_def bindE_Inr_iff split: if_splits)
  with none show ?thesis by (simp add: goes_on_def delivered_def)
next
  case True
  with assms obtain result_ids
    where item: "py_getitem response (ascii ''resultIds'') = Inr result_ids"
      and rest: "(if \<not> truthy L result_ids then Inr (Break s)
          else bindE (py_set_update s result_ids) (\<lambda>all_variant_ids'.
               bindE (py_get response (ascii ''totalPages'') (JInt 1)) (\<lambda>total_pages.
               bindE (py_int_ge L (int page) total_pages) (\<lambda>last_page.
                 if last_page \<or> page \<ge> 100 then Inr (Break all_variant_ids')
                 else Inr (Continue all_variant_ids'))))) = Inr step"
    by (auto simp: page_step_def bindE_Inr_iff)
  show ?thesis
  proof (cases "truthy L result_ids")
    case False
    with True item have none: "page_ids L response = None" by (simp add: page_ids_def)
    from False rest have "step = Break s" by simp
    with none show ?thesis by (simp add: goes_on_def delivered_def)
  next
    case truthy: True
    with rest obtain s' total_pages last_page
      where upd: "py_set_update s result_ids = Inr s'"
        and total: "py_get response (ascii ''totalPages'') (JInt 1) = Inr total_pages"
        and last: "py_int_ge L (int page) total_pages = Inr last_page"
        and step: "step = (if last_page \<or> page \<ge> 100 then Break s' else Continue s')"
      by (auto simp: bindE_Inr_iff split: if_splits)
    from upd obtain xs where xs: "py_iter result_ids = Inr xs" "list_all hashable xs"
      and s': "s' = s \<union> set xs"
      by (auto simp: py_set_update_def bindE_Inr_iff split: if_splits)
    from True item truthy xs have ids: "page_ids L response = Some xs"
      by (simp add: page_ids_def)
    from total last have "at_declared_total L page response = Inr last_page"
      by (simp add: at_declared_total_def)
    with ids step s' show ?thesis
      by (auto simp: goes_on_def delivered_def)
  qed
qed

text \<open>
  The loop from any page on: it requests the pages from \<open>page\<close> up to the first page \<open>n\<close>
  at which a termination condition holds, and a run that returns has collected what
  these pages delivered.
\<close>

lemma pages_from_stops_at_first:
  "pages_from L fetch page s requested = (requested', outcome) \<Longrightarrow>
     \<exists>n. page \<le> n \<and> n \<le> max page 100 \<and> requested' = requested @ [page..<Suc n]
       \<and> (\<forall>p\<in>{page..<n}. goes_on L p (fetch p)) \<and> \<not> goes_on L n (fetch n)
       \<and> (\<forall>ids. outcome = Inr ids \<longrightarrow> ids = s \<union> (\<Union>p\<in>{page..n}. delivered L (fetch p)))"
proof (induction L fetch page s requested rule: pages_from.induct)
  case (1 L fetch page s requested)
  show ?case
  proof (cases "page_step L (fetch page) page s")
    case (Inl e)
    with "1.prems" have "requested' = requested @ [page]" "outcome = Inl e"
      by (simp_all add: pages_from.simps [of L fetch page s requested])
    moreover from Inl have "\<not> goes_on L page (fetch page)" by (rule page_step_raises)
    ultimately show ?thesis
      by (intro exI [of _ page]) auto
  next
    case (Inr step)
    note ret = page_step_returns [OF Inr]
    show ?thesis
    proof (cases "goes_on L page (fetch page)")
      case False
      with ret have step: "step = Break (s \<union> delivered L (fetch page))" by simp
      with Inr "1.prems"
      have "requested' = requested @ [page]" "outcome = Inr (s \<union> delivered L (fetch page))"
        by (simp_all add: pages_from.simps [of L fetch page s requested])
      with False show ?thesis
        by (intro exI [of _ page]) auto
    next
      case True
      with ret have step: "step = Continue (s \<union> delivered L (fetch page))" by simp
      from True have lt: "page < 100" by (simp add: goes_on_def)
      from step Inr "1.prems"
      have "pages_from L fetch (Suc page) (s \<union> delivered L (fetch page)) (requested @ [page])
          = (requested', outcome)"
        by (simp add: pages_from.simps [of L fetch page s requested])
      from "1.IH" [OF Inr step this] obtain n
        where n: "Suc page \<le> n" "n \<le> max (Suc page) 100"
          "requested' = (requested @ [page]) @ [Suc page..<Suc n]"
          "\<forall>p\<in>{Suc page..<n}. goes_on L p (fetch p)" "\<not> goes_on L n (fetch n)"
          "\<forall>ids. outcome = Inr ids \<longrightarrow>
             ids = (s \<union> delivered L (fetch page)) \<union> (\<Union>p\<in>{Suc page..n}. delivered L (fetch p))"
        by blast
      from n(1) have split: "{page..n} = insert page {Suc page..n}" by auto
      from n(1) have splitl: "{page..<n} = insert page {Suc page..<n}" by auto
      from n(1) have upt: "[page..<Suc n] = page # [Suc page..<Suc n]"
        by (simp add: upt_conv_Cons)
      show ?thesis
      proof (intro exI [of _ n] conjI)
        show "page \<le> n" using n(1) by simp
        show "n \<le> max page 100" using n(2) lt by simp
        show "requested' = requested @ [page..<Suc n]" using n(3) upt by simp
        show "\<forall>p\<in>{page..<n}. goes_on L p (fetch p)" using n(4) True splitl by simp
        show "\<not> goes_on L n (fetch n)" by (rule n(5))
        show "\<forall>ids. outcome = Inr ids \<longrightarrow>
            ids = s \<union> (\<Union>p\<in>{page..n}. delivered L (fetch p))"
          using n(6) split by auto
      qed
    qed
  qed
qed

text \<open>
  Claim C3. For every category and every assignment of responses to pages, the
  paginator requests the pages \<open>1, 2, ..., n\<close>, where \<open>n\<close> is the first page at which a
  termination condition holds: the response is missing, malformed or without
  identifiers, the page counter has reached the declared total, or it has reached the
  safety bound of 100. It never requests more than 100 pages. When it returns, the
  result is the set of the identifiers that the pages \<open>1\<close> to \<open>n\<close> delivered.
\<close>

theorem paginator_stops_at_first_condition:
  assumes "get_product_variant_ids_from_category L fetch category = (requested, outcome)"
  shows "\<exists>n. 1 \<le> n \<and> n \<le> 100 \<and> requested = [1..<Suc n]
       \<and> (\<forall>p\<in>{1..<n}. goes_on L p (fetch category p))
       \<and> \<not> goes_on L n (fetch category n)
       \<and> (\<forall>ids. outcome = Inr ids \<longrightarrow> ids = (\<Union>p\<in>{1..n}. delivered L (fetch category p)))"
proof -
  from assms have "pages_from L (fetch category) 1 {} [] = (requested, outcome)"
    by (simp add: get_product_variant_ids_from_category_def)
  from pages_from_stops_at_first [OF this] show ?thesis
    by (simp add: max_def)
qed

text \<open>
  The run of the specification: category \<^verbatim>\<open>c1\<close>, two identifiers on each of the pages
  1 to 3, a declared total of 3 pages. The paginator returns the six identifiers and
  requests the pages 1, 2 and 3, so none for page 4: page 3 is the first page at which
  a termination condition holds.
\<close>

definition result_page :: "string \<Rightarrow> string \<Rightarrow> rat json" where
  "result_page id1 id2 =
     JObj [(ascii ''resultIds'', JArr [JStr (ascii id1), JStr (ascii id2)]),
           (ascii ''totalPages'', JInt 3)]"

definition three_pages :: "ustr \<Rightarrow> nat \<Rightarrow> rat json" where
  "three_pages category page =
     (if category = ascii ''c1'' \<and> page = 1 then result_page ''BTY-X10032'' ''BTY-X20032''
      else if category = ascii ''c1'' \<and> page = 2 then result_page ''BTY-X30032'' ''BTY-X40032''
      else if category = ascii ''c1'' \<and> page = 3 then result_page ''BTY-X50032'' ''BTY-X60032''
      else JNull)"

definition six_ids :: "rat json set" where
  "six_ids = JStr ` ascii ` {''BTY-X10032'', ''BTY-X20032'', ''BTY-X30032'', ''BTY-X40032'',
                            ''BTY-X50032'', ''BTY-X60032''}"

theorem paginator_stops_at_first_condition_witness:
  "get_product_variant_ids_from_category py0 three_pages (ascii ''c1'')
     = ([1, 2, 3], Inr six_ids)
   \<and> card six_ids = 6
   \<and> 4 \<notin> set [1, 2, 3 :: nat]
   \<and> goes_on py0 1 (three_pages (ascii ''c1'') 1)
   \<and> goes_on py0 2 (three_pages (ascii ''c1'') 2)
   \<and> \<not> goes_on py0 3 (three_pages (ascii ''c1'') 3)"
proof -
  have run: "get_product_variant_ids_from_category py0 three_pages (ascii ''c1'')
      = ([1, 2, 3], Inr six_ids)"
    by (simp add: get_product_variant_ids_from_category_def pages_from.simps page_step_def
        py_set_update_def three_pages_def result_page_def six_ids_def ascii_def py0_def
        insert_commute)
  have card: "card six_ids = 6"
    by (simp add: six_ids_def ascii_def)
  from paginator_stops_at_first_condition [OF run] obtain n
    where n: "[1, 2, 3] = [1..<Suc n]"
      and before: "\<forall>p\<in>{1..<n}. goes_on py0 p (three_pages (ascii ''c1'') p)"
      and stop: "\<not> goes_on py0 n (three_pages (ascii ''c1'') n)"
    by blast
  from n have "length [1, 2, 3 :: nat] = length [1..<Suc n]" by (rule arg_cong)
  then have "n = 3" by (simp del: upt_Suc)
  with before stop run card show ?thesis by simp
qed

section \<open>Rejected records\<close>

lemma locate_bundle_no_variants:
  "py_get a (ascii ''variants'') (JObj []) = Inr variants \<Longrightarrow> \<not> truthy L variants \<Longrightarrow>
     locate_bundle L a = Inr None"
  by (simp add: locate_bundle_def)

lemma locate_bundle_no_bundles:
  "py_get a (ascii ''variants'') (JObj []) = Inr (JObj ((vid, variant) # others)) \<Longrightarrow>
   py_get variant (ascii ''bundles'') (JObj []) = Inr bundles \<Longrightarrow> \<not> truthy L bundles \<Longrightarrow>
     locate_bundle L a = Inr None"
  by (simp add: locate_bundle_def)

lemma extract_code_no_entries:
  "(map_of b (ascii ''eanNumber'') = None \<or> map_of b (ascii ''eanNumber'') = Some (JArr []))
   \<Longrightarrow> (map_of b (ascii ''gtins'') = None \<or> map_of b (ascii ''gtins'') = Some (JArr []))
   \<Longrightarrow> extract_code L (JObj b) = Inr JNull"
  by (auto simp: extract_code_def)

text \<open>The barcode is read from the EAN list, and from the GTIN list when that is empty.\<close>

lemma extract_code_ean:
  "map_of b (ascii ''eanNumber'') = Some (JArr (JObj entry # entries)) \<Longrightarrow>
     extract_code L (JObj b)
       = Inr (case map_of entry (ascii ''number'') of None \<Rightarrow> JNull | Some n \<Rightarrow> n)"
  by (simp add: extract_code_def)

lemma extract_code_gtin:
  "map_of b (ascii ''eanNumber'') = None \<or> map_of b (ascii ''eanNumber'') = Some (JArr []) \<Longrightarrow>
   map_of b (ascii ''gtins'') = Some (JArr (JObj entry # entries)) \<Longrightarrow>
     extract_code L (JObj b)
       = Inr (case map_of entry (ascii ''number'') of None \<Rightarrow> JNull | Some n \<Rightarrow> n)"
  by (auto simp: extract_code_def)

lemma extract_product_data_located:
  "locate_bundle L a = Inr located \<Longrightarrow>
     extract_product_data L a
       = (case located of
            None \<Rightarrow> None
          | Some bundle \<Rightarrow> (case extract_bundle L bundle of Inl e \<Rightarrow> None | Inr p \<Rightarrow> p))"
  by (simp add: extract_product_data_def extract_product_body_def split: option.splits)

lemma extract_bundle_no_code:
  "extract_code L bundle = Inr c \<Longrightarrow> \<not> truthy L c \<Longrightarrow> extract_bundle L bundle = Inr None"
  by (simp add: extract_bundle_def)

text \<open>
  Claim C4. \<open>extract_product_data\<close> returns nothing when the collection of variants is
  empty, when the collection of bundles of the first variant is empty, when the barcode
  read from the EAN and GTIN lists is missing or empty, in particular when both lists
  are missing or empty, and when anything in the extraction raises. A record that is
  returned carries the barcode, and for a bundle without a nutrition table its eight
  nutrition fields are absent.
\<close>

theorem extract_product_data_rejects_or_carries_barcode:
  "(py_get a (ascii ''variants'') (JObj []) = Inr variants \<and> \<not> truthy L variants
      \<longrightarrow> extract_product_data L a = None)
   \<and> (py_get a (ascii ''variants'') (JObj []) = Inr (JObj ((vid, variant) # others))
       \<and> py_get variant (ascii ''bundles'') (JObj []) = Inr bundles \<and> \<not> truthy L bundles
      \<longrightarrow> extract_product_data L a = None)
   \<and> (locate_bundle L a = Inr (Some first_bundle) \<and> extract_code L first_bundle = Inr c
       \<and> \<not> truthy L c
      \<longrightarrow> extract_product_data L a = None)
   \<and> (locate_bundle L a = Inr (Some (JObj b))
       \<and> (map_of b (ascii ''eanNumber'') = None \<or> map_of b (ascii ''eanNumber'') = Some (JArr []))
       \<and> (map_of b (ascii ''gtins'') = None \<or> map_of b (ascii ''gtins'') = Some (JArr []))
      \<longrightarrow> extract_product_data L a = None)
   \<and> (extract_product_body L a = Inl e \<longrightarrow> extract_product_data L a = None)
   \<and> (extract_product_data L a = Some p
      \<longrightarrow> truthy L (code p)
          \<and> (\<exists>located. locate_bundle L a = Inr (Some located)
                \<and> extract_code L located = Inr (code p)
                \<and> (no_nutrition_table L located
                    \<longrightarrow> energy_100g p = None \<and> fat_100g p = None
                        \<and> saturated_fat_100g p = None \<and> proteins_100g p = None
                        \<and> carbohydrates_100g p = None \<and> sugars_100g p = None
                        \<and> fiber_100g p = None \<and> sodium_100g p = None)))"
proof (intro conjI impI)
  assume "py_get a (ascii ''variants'') (JObj []) = Inr variants \<and> \<not> truthy L variants"
  then have "locate_bundle L a = Inr None"
    by (auto intro: locate_bundle_no_variants)
  then show "extract_product_data L a = None"
    by (simp add: extract_product_data_located)
next
  assume "py_get a (ascii ''variants'') (JObj []) = Inr (JObj ((vid, variant) # others))
       \<and> py_get variant (ascii ''bundles'') (JObj []) = Inr bundles \<and> \<not> truthy L bundles"
  then have "locate_bundle L a = Inr None"
    by (auto intro: locate_bundle_no_bundles)
  then show "extract_product_data L a = None"
    by (simp add: extract_product_data_located)
next
  assume "locate_bundle L a = Inr (Some first_bundle) \<and> extract_code L first_bundle = Inr c
       \<and> \<not> truthy L c"
  then show "extract_product_data L a = None"
    by (simp add: extract_product_data_located extract_bundle_no_code)
next
  assume asm: "locate_bundle L a = Inr (Some (JObj b))
       \<and> (map_of b (ascii ''eanNumber'') = None \<or> map_of b (ascii ''eanNumber'') = Some (JArr []))
       \<and> (map_of b (ascii ''gtins'') = None \<or> map_of b (ascii ''gtins'') = Some (JArr []))"
  then have "extract_code L (JObj b) = Inr JNull"
    by (intro extract_code_no_entries) blast+
  then have "extract_bundle L (JObj b) = Inr None"
    by (rule extract_bundle_no_code) simp
  with asm show "extract_product_data L a = None"
    by (simp add: extract_product_data_located)
next
  assume "extract_product_body L a = Inl e"
  then show "extract_product_data L a = None"
    by (simp add: extract_product_data_def)
next
  assume p: "extract_product_data L a = Some p"
  from extract_product_data_Some [OF p] obtain located
    where loc: "locate_bundle L a = Inr (Some located)"
      and built: "extract_bundle L located = Inr (Some p)"
    by blast
  from extract_bundle_Some [OF built] show "truthy L (code p)" by blast
next
  assume p: "extract_product_data L a = Some p"
  from extract_product_data_Some [OF p] obtain located
    where loc: "locate_bundle L a = Inr (Some located)"
      and built: "extract_bundle L located = Inr (Some p)"
    by blast
  from extract_bundle_Some [OF built] obtain details
    where c: "extract_code L located = Inr (code p)"
      and details: "extract_details L located = Inr details"
      and fields: "energy_100g p = nutrition_get (snd details) (ascii ''energy_100g'')"
        "fat_100g p = nutrition_get (snd details) (ascii ''fat_100g'')"
        "saturated_fat_100g p = nutrition_get (snd details) (ascii ''saturated_fat_100g'')"
        "proteins_100g p = nutrition_get (snd details) (ascii ''proteins_100g'')"
        "carbohydrates_100g p = nutrition_get (snd details) (ascii ''carbohydrates_100g'')"
        "sugars_100g p = nutrition_get (snd details) (ascii ''sugars_100g'')"
        "fiber_100g p = nutrition_get (snd details) (ascii ''fiber_100g'')"
        "sodium_100g p = nutrition_get (snd details) (ascii ''sodium_100g'')"
    by blast
  have "energy_100g p = None \<and> fat_100g p = None
      \<and> saturated_fat_100g p = None \<and> proteins_100g p = None
      \<and> carbohydrates_100g p = None \<and> sugars_100g p = None
      \<and> fiber_100g p = None \<and> sodium_100g p = None"
    if "no_nutrition_table L located"
  proof -
    from details that have "snd details = []" by (rule extract_details_no_table)
    with fields show ?thesis by (simp add: nutrition_get_def)
  qed
  with loc c
  show "\<exists>located. locate_bundle L a = Inr (Some located)
                \<and> extract_code L located = Inr (code p)
                \<and> (no_nutrition_table L located
                    \<longrightarrow> energy_100g p = None \<and> fat_100g p = None
                        \<and> saturated_fat_100g p = None \<and> proteins_100g p = None
                        \<and> carbohydrates_100g p = None \<and> sugars_100g p = None
                        \<and> fiber_100g p = None \<and> sodium_100g p = None)"
    by blast
qed

text \<open>
  An article without variants, one whose first variant has no bundles, a bundle whose
  barcode is the empty string, a bundle without EAN and GTIN lists, and \<^verbatim>\<open>None\<close> in the
  place of the article (\<^verbatim>\<open>None.get\<close> raises) are all rejected. The bundle with the barcode
  \<^verbatim>\<open>5901234123457\<close> and no nutrition table gives a record with that code and without
  nutrition values.
\<close>

theorem extract_product_data_rejects_or_carries_barcode_witness:
  "extract_product_data py0 (JObj []) = None
   \<and> extract_product_data py0
       (JObj [(ascii ''variants'', JObj [(ascii ''0032'', JObj [(ascii ''bundles'', JObj [])])])])
     = None
   \<and> extract_product_data py0
       (article_with_bundle
          (JObj [(ascii ''eanNumber'', JArr [JObj [(ascii ''number'', JStr [])]])])) = None
   \<and> extract_product_data py0
       (article_with_bundle (JObj [(ascii ''description'', JStr (ascii ''Milk''))])) = None
   \<and> extract_product_data py0 JNull = None
   \<and> extract_product_data py0 (article_with_bundle (barcode_bundle []))
     = Some \<lparr> code = JStr (ascii ''5901234123457''), product_name = JNull, quantity = JNull,
              brand = JNull, categories = JNull, ingredients = JNull, image_url = JNull,
              nutriscore_grade = JNull, energy_100g = None, fat_100g = None,
              saturated_fat_100g = None, proteins_100g = None, carbohydrates_100g = None,
              sugars_100g = None, fiber_100g = None, sodium_100g = None \<rparr>
   \<and> no_nutrition_table py0 (barcode_bundle [])
   \<and> truthy py0 (JStr (ascii ''5901234123457''))"
proof -
  note rejects = extract_product_data_rejects_or_carries_barcode
  let ?no_bundles = "JObj [(ascii ''bundles'', JObj [])] :: rat json"
  let ?empty_code = "JObj [(ascii ''eanNumber'', JArr [JObj [(ascii ''number'', JStr [])]])]
    :: rat json"
  let ?milk = "[(ascii ''description'', JStr (ascii ''Milk''))] :: (ustr \<times> rat json) list"
  let ?p = "\<lparr> code = JStr (ascii ''5901234123457''), product_name = JNull, quantity = JNull,
              brand = JNull, categories = JNull, ingredients = JNull, image_url = JNull,
              nutriscore_grade = JNull, energy_100g = None, fat_100g = None,
              saturated_fat_100g = None, proteins_100g = None, carbohydrates_100g = None,
              sugars_100g = None, fiber_100g = None, sodium_100g = None \<rparr> :: rat product"
  have "py_get (JObj []) (ascii ''variants'') (JObj []) = Inr (JObj [] :: rat json)
      \<and> \<not> truthy py0 (JObj [] :: rat json)"
    by simp
  from rejects [where a = "JObj []" and L = py0 and variants = "JObj []",
      THEN conjunct1, THEN mp, OF this]
  have no_variants: "extract_product_data py0 (JObj []) = None" .
  have "py_get (JObj [(ascii ''variants'', JObj [(ascii ''0032'', ?no_bundles)])])
          (ascii ''variants'') (JObj [])
        = Inr (JObj ((ascii ''0032'', ?no_bundles) # []))
      \<and> py_get ?no_bundles (ascii ''bundles'') (JObj []) = Inr (JObj [])
      \<and> \<not> truthy py0 (JObj [] :: rat json)"
    by simp
  from rejects [where a = "JObj [(ascii ''variants'', JObj [(ascii ''0032'', ?no_bundles)])]"
      and L = py0 and vid = "ascii ''0032''" and variant = ?no_bundles and others = "[]"
      and bundles = "JObj []",
      THEN conjunct2, THEN conjunct1, THEN mp, OF this]
  have no_bundles: "extract_product_data py0
       (JObj [(ascii ''variants'', JObj [(ascii ''0032'', ?no_bundles)])]) = None" .
  have "locate_bundle py0 (article_with_bundle ?empty_code) = Inr (Some ?empty_code)
      \<and> extract_code py0 ?empty_code = Inr (JStr [])
      \<and> \<not> truthy py0 (JStr [] :: rat json)"
    by (simp add: locate_bundle_def article_with_bundle_def extract_code_def)
  from rejects [where a = "article_with_bundle ?empty_code" and L = py0
      and first_bundle = ?empty_code and c = "JStr []",
      THEN conjunct2, THEN conjunct2, THEN conjunct1, THEN mp, OF this]
  have empty_code: "extract_product_data py0 (article_with_bundle ?empty_code) = None" .
  have "locate_bundle py0 (article_with_bundle (JObj ?milk)) = Inr (Some (JObj ?milk))
      \<and> (map_of ?milk (ascii ''eanNumber'') = None
           \<or> map_of ?milk (ascii ''eanNumber'') = Some (JArr []))
      \<and> (map_of ?milk (ascii ''gtins'') = None \<or> map_of ?milk (ascii ''gtins'') = Some (JArr []))"
    by (simp add: locate_bundle_def article_with_bundle_def ascii_def)
  from rejects [where a = "article_with_bundle (JObj ?milk)" and L = py0 and b = ?milk,
      THEN conjunct2, THEN conjunct2, THEN conjunct2, THEN conjunct1, THEN mp, OF this]
  have no_lists: "extract_product_data py0 (article_with_bundle (JObj ?milk)) = None" .
  have "extract_product_body py0 (JNull :: rat json) = Inl AttributeError"
    by (simp add: extract_product_body_def locate_bundle_def)
  from rejects [where a = JNull and L = py0 and e = AttributeError,
      THEN conjunct2, THEN conjunct2, THEN conjunct2, THEN conjunct2, THEN conjunct1,
      THEN mp, OF this]
  have raises: "extract_product_data py0 JNull = None" .
  have some: "extract_product_data py0 (article_with_bundle (barcode_bundle [])) = Some ?p"
    by (simp add: product_defs example_defs)
  have no_table: "no_nutrition_table py0 (barcode_bundle [])"
    by (simp add: no_nutrition_table_def barcode_bundle_def ascii_def)
  from rejects [where a = "article_with_bundle (barcode_bundle [])" and L = py0 and p = ?p,
      THEN conjunct2, THEN conjunct2, THEN conjunct2, THEN conjunct2, THEN conjunct2,
      THEN mp, OF some]
  have "truthy py0 (code ?p)"
    by (rule conjunct1)
  then have code: "truthy py0 (JStr (ascii ''5901234123457'') :: rat json)"
    by simp
  from no_variants no_bundles empty_code no_lists raises some no_table code
  show ?thesis by (intro conjI)
qed

section \<open>Category walker: what it returns, and where it raises\<close>

text \<open>A category path under the root: a string that starts with the root category.\<close>

definition under_root :: "'f json \<Rightarrow> bool" where
  "under_root c = (case c of JStr s \<Rightarrow> prefix root_category s | _ \<Rightarrow> False)"

lemma py_startswith_True: "py_startswith c p = Inr True \<Longrightarrow> \<exists>s. c = JStr s \<and> prefix p s"
  by (cases c) auto

lemma extract_categories_under_root:
  "extract_categories L tree_node acc = Inr out \<Longrightarrow>
      list_all under_root acc \<Longrightarrow> list_all under_root out"
  and extract_children_under_root:
  "extract_children L items acc = Inr out \<Longrightarrow>
      list_all under_root acc \<Longrightarrow> list_all under_root out"
proof (induction L tree_node acc and L items acc arbitrary: out and out
    rule: extract_categories_extract_children.induct)
  case (1 L tree_node acc)
  from "1.prems"(1) obtain children items
    where "py_in (ascii ''children'') tree_node = Inr True
        \<and> py_getitem tree_node (ascii ''children'') = Inr children
        \<and> py_items children = Inr items
        \<and> extract_children L items acc = Inr out
      \<or> out = acc"
    by (auto simp: extract_categories.simps [of L tree_node acc] bindE_Inr_iff
        simp del: extract_children.simps split: if_splits)
  with "1.IH" "1.prems"(2) show ?case by blast
next
  case (2 L acc)
  then show ?case by simp
next
  case (3 L category_id category_data rest acc)
  note run = "3.prems"(1) and inv = "3.prems"(2)
  from run obtain category_path
    where path: "py_get category_data (ascii ''urlCategoryPath'') (JStr []) = Inr category_path"
      and rest1: "(if truthy L category_path
         then bindE (py_startswith category_path root_category) (\<lambda>under_root.
                if under_root
                then bindE (extract_categories L category_data (acc @ [category_path]))
                       (\<lambda>acc'. extract_children L rest acc')
                else extract_children L rest acc)
         else extract_children L rest acc) = Inr out"
    by (auto simp: bindE_Inr_iff)
  show ?case
  proof (cases "truthy L category_path")
    case False
    with rest1 have "extract_children L rest acc = Inr out" by simp
    with "3.IH"(4) [OF path False] inv show ?thesis by blast
  next
    case True
    with rest1 obtain st where st: "py_startswith category_path root_category = Inr st"
      and rest2: "(if st
                then bindE (extract_categories L category_data (acc @ [category_path]))
                       (\<lambda>acc'. extract_children L rest acc')
                else extract_children L rest acc) = Inr out"
      by (auto simp: bindE_Inr_iff)
    show ?thesis
    proof (cases st)
      case False
      with rest2 have "extract_children L rest acc = Inr out" by simp
      with "3.IH"(3) [OF path True st False] inv show ?thesis by blast
    next
      case st_True: True
      with rest2 obtain acc'
        where sub: "extract_categories L category_data (acc @ [category_path]) = Inr acc'"
          and tail: "extract_children L rest acc' = Inr out"
        by (auto simp: bindE_Inr_iff)
      from st st_True have "under_root category_path"
        by (auto simp: under_root_def dest: py_startswith_True)
      with inv have "list_all under_root (acc @ [category_path])" by simp
      with "3.IH"(1) [OF path True st st_True] sub have "list_all under_root acc'"
        by blast
      with "3.IH"(2) [OF path True st st_True sub] tail show ?thesis by blast
    qed
  qed
qed

text \<open>
  Whenever the method returns, the list is not empty and every path in it is under the
  root.
\<close>

lemma get_food_subcategories_returns:
  assumes "get_food_subcategories L response = Inr out"
  shows "out \<noteq> [] \<and> list_all under_root out"
proof -
  from assms obtain found
    where step: "(if truthy L response
        then bindE (py_in (ascii ''categorytree'') response) (\<lambda>has_tree.
               if has_tree
               then bindE (py_getitem response (ascii ''categorytree'')) (\<lambda>categorytree.
                    bindE (py_getitem categorytree (ascii ''children'')) (\<lambda>children.
                    bindE (py_get children (ascii ''Food_1622788118100'') (JObj [])) (\<lambda>food_tree.
                      extract_categories L food_tree [])))
               else Inr [])
        else Inr []) = Inr found"
      and out: "out = (if found = [] then [JStr root_category] else found)"
    unfolding get_food_subcategories_def bindE_Inr_iff by blast
  from step have "found = [] \<or> (\<exists>food_tree. extract_categories L food_tree [] = Inr found)"
    by (auto simp: bindE_Inr_iff split: if_splits)
  then have "list_all under_root found"
    by (auto dest: extract_categories_under_root)
  with out show ?thesis by (auto simp: under_root_def)
qed

text \<open>
  The fallback to the root category: after a failed request, for an empty body, for a
  body without the key \<^verbatim>\<open>categorytree\<close>, and for a tree whose food node is missing or has
  no children.
\<close>

lemma get_food_subcategories_fallback:
  "\<not> truthy L response \<Longrightarrow> get_food_subcategories L response = Inr [JStr root_category]"
  "py_in (ascii ''categorytree'') response = Inr False \<Longrightarrow>
     get_food_subcategories L response = Inr [JStr root_category]"
  "map_of kvs (ascii ''categorytree'') = Some (JObj tree) \<Longrightarrow>
   map_of tree (ascii ''children'') = Some (JObj nodes) \<Longrightarrow>
   map_of nodes (ascii ''Food_1622788118100'') = None \<Longrightarrow>
     get_food_subcategories L (JObj kvs) = Inr [JStr root_category]"
  "map_of kvs (ascii ''categorytree'') = Some (JObj tree) \<Longrightarrow>
   map_of tree (ascii ''children'') = Some (JObj nodes) \<Longrightarrow>
   map_of nodes (ascii ''Food_1622788118100'') = Some (JObj food) \<Longrightarrow>
   map_of food (ascii ''children'') = None \<Longrightarrow>
     get_food_subcategories L (JObj kvs) = Inr [JStr root_category]"
  by (auto simp: get_food_subcategories_def extract_categories.simps)

text \<open>
  Claim C5 says that the method always returns a non-empty list and falls back to the root
  category for every missing or malformed tree response. The method reads
  \<^verbatim>\<open>response['categorytree']['children']\<close> without the test \<^verbatim>\<open>'children' in ...\<close> that the
  nested function makes for every node below: for the body \<^verbatim>\<open>{"categorytree": {}}\<close> it
  raises \<^verbatim>\<open>KeyError\<close>, and nothing in the method catches it.
\<close>

theorem get_food_subcategories_raises_without_children:
  "get_food_subcategories L (JObj [(ascii ''categorytree'', JObj [])]) = Inl KeyError"
  by (simp add: get_food_subcategories_def)

section \<open>Unit reconciliation: grams to milligrams and nothing else\<close>

text \<open>
  Claim C6. Every value that \<open>extract_nutritional_value\<close> returns is the numeric value of
  the first cell of a row of the table, multiplied by 1000 exactly when the requested
  unit reads \<^verbatim>\<open>mg\<close> and the unit of that cell reads \<^verbatim>\<open>g\<close> (both in lower case), and
  unchanged under every other pair of units. In particular a request for any unit other
  than \<^verbatim>\<open>mg\<close> returns what a request without a unit returns.
\<close>

theorem unit_reconciliation_only_grams_to_milligrams:
  "(extract_nutritional_value L t kws unit = Inr (Some v) \<longrightarrow>
      (\<exists>rows row_list row cells reading.
          py_getitem t (ascii ''rows'') = Inr rows \<and> py_iter rows = Inr row_list
        \<and> row \<in> set row_list
        \<and> py_get row (ascii ''cells'') (JArr []) = Inr cells
        \<and> first_cell_reading L cells = Inr reading
        \<and> v = (if wants_mg L unit \<and> snd reading = ascii ''g''
               then float_times_1000 L (fst reading) else fst reading)))
   \<and> (\<not> wants_mg L unit \<longrightarrow>
        extract_nutritional_value L t kws unit = extract_nutritional_value L t kws None)"
proof (intro conjI impI)
  assume ret: "extract_nutritional_value L t kws unit = Inr (Some v)"
  from extract_nutritional_value_rows [OF ret] obtain rows row_list
    where rows: "py_getitem t (ascii ''rows'') = Inr rows" "py_iter rows = Inr row_list"
      and scan: "scan_rows L kws unit row_list = Inr (Some v)"
    by auto
  from scan_rows_Some [OF scan] obtain pre row post
    where split: "row_list = pre @ row # post"
      and hit: "scan_row L kws unit row = Inr (Some v)"
    by blast
  from split have row: "row \<in> set row_list" by simp
  from scan_row_Some [OF hit] obtain cells
    where cells: "py_get row (ascii ''cells'') (JArr []) = Inr cells"
      and val: "cell_value L unit cells = Inr v"
    by blast
  from val obtain reading
    where "first_cell_reading L cells = Inr reading"
      "v = (if wants_mg L unit \<and> snd reading = ascii ''g''
            then float_times_1000 L (fst reading) else fst reading)"
    by (auto simp: cell_value_reading bindE_Inr_iff)
  with rows row cells
  show "\<exists>rows row_list row cells reading.
          py_getitem t (ascii ''rows'') = Inr rows \<and> py_iter rows = Inr row_list
        \<and> row \<in> set row_list
        \<and> py_get row (ascii ''cells'') (JArr []) = Inr cells
        \<and> first_cell_reading L cells = Inr reading
        \<and> v = (if wants_mg L unit \<and> snd reading = ascii ''g''
               then float_times_1000 L (fst reading) else fst reading)"
    by blast
next
  assume "\<not> wants_mg L unit"
  then show "extract_nutritional_value L t kws unit = extract_nutritional_value L t kws None"
    by (rule extract_nutritional_value_no_mg)
qed

text \<open>
  A sodium row of 0.5 g: 500 when milligrams are requested, 0.5 when grams or no unit
  are. An energy row of 1046 kJ read for \<^verbatim>\<open>kcal\<close>: 1046, unconverted.
\<close>

theorem unit_reconciliation_only_grams_to_milligrams_witness:
  "extract_nutritional_value py0
       (table_of_rows [row_of (ascii ''Sodium'') (JStr (ascii ''0.5'')) ''g''])
       [ascii ''sodium''] (Some (ascii ''mg'')) = Inr (Some 500)
   \<and> extract_nutritional_value py0
       (table_of_rows [row_of (ascii ''Sodium'') (JStr (ascii ''0.5'')) ''g''])
       [ascii ''sodium''] (Some (ascii ''g'')) = Inr (Some (1 / 2))
   \<and> extract_nutritional_value py0
       (table_of_rows [row_of (ascii ''Sodium'') (JStr (ascii ''0.5'')) ''g''])
       [ascii ''sodium''] None = Inr (Some (1 / 2))
   \<and> extract_nutritional_value py0
       (table_of_rows [row_of label_energy (JStr (ascii ''1046'')) ''kJ''])
       [kw_energy] (Some (ascii ''kcal'')) = Inr (Some 1046)
   \<and> (\<exists>rows row_list row cells reading.
          py_getitem (table_of_rows [row_of (ascii ''Sodium'') (JStr (ascii ''0.5'')) ''g''])
            (ascii ''rows'') = Inr rows
        \<and> py_iter rows = Inr row_list \<and> row \<in> set row_list
        \<and> py_get row (ascii ''cells'') (JArr []) = Inr cells
        \<and> first_cell_reading py0 cells = Inr reading
        \<and> 500 = (if wants_mg py0 (Some (ascii ''mg'')) \<and> snd reading = ascii ''g''
                 then float_times_1000 py0 (fst reading) else fst reading))"
proof -
  let ?sodium = "table_of_rows [row_of (ascii ''Sodium'') (JStr (ascii ''0.5'')) ''g'']"
  let ?energy = "table_of_rows [row_of label_energy (JStr (ascii ''1046'')) ''kJ'']"
  have mg: "extract_nutritional_value py0 ?sodium [ascii ''sodium''] (Some (ascii ''mg''))
      = Inr (Some 500)"
    by (simp add: extractor_defs example_defs)
  have none: "extract_nutritional_value py0 ?sodium [ascii ''sodium''] None
      = Inr (Some (1 / 2))"
    by (simp add: extractor_defs example_defs)
  have kj: "extract_nutritional_value py0 ?energy [kw_energy] None = Inr (Some 1046)"
    by (simp add: extractor_defs example_defs)
  have g: "\<not> wants_mg py0 (Some (ascii ''g''))"
    by (simp add: wants_mg_def example_defs)
  have kcal: "\<not> wants_mg py0 (Some (ascii ''kcal''))"
    by (simp add: wants_mg_def example_defs)
  from g unit_reconciliation_only_grams_to_milligrams
    [of py0 ?sodium "[ascii ''sodium'']" "Some (ascii ''g'')"]
  have "extract_nutritional_value py0 ?sodium [ascii ''sodium''] (Some (ascii ''g''))
      = extract_nutritional_value py0 ?sodium [ascii ''sodium''] None"
    by blast
  moreover from kcal unit_reconciliation_only_grams_to_milligrams
    [of py0 ?energy "[kw_energy]" "Some (ascii ''kcal'')"]
  have "extract_nutritional_value py0 ?energy [kw_energy] (Some (ascii ''kcal''))
      = extract_nutritional_value py0 ?energy [kw_energy] None"
    by blast
  moreover note unit_reconciliation_only_grams_to_milligrams
    [of py0 ?sodium "[ascii ''sodium'']" "Some (ascii ''mg'')" 500,
     THEN conjunct1, THEN mp, OF mg]
  ultimately show ?thesis
    using mg none kj by (simp only: simp_thms)
qed

section \<open>Row selection: the first usable row, not the first matching row\<close>

text \<open>The label of a row, in lower case, contains one of the keywords.\<close>

definition label_matches :: "'f runtime \<Rightarrow> ustr list \<Rightarrow> 'f json \<Rightarrow> bool" where
  "label_matches L kws row =
     (case py_get row (ascii ''rowLabel'') (JStr []) of
        Inr (JStr label) \<Rightarrow> list_ex (\<lambda>keyword. str_contains keyword (str_lower L label)) kws
      | _ \<Rightarrow> False)"

text \<open>
  Claim C7 as it is stated: the numeric value of the first cell of the first row whose
  label matches, and nothing when no label matches.
\<close>

definition first_matching_row_value ::
  "'f runtime \<Rightarrow> ustr list \<Rightarrow> 'f json list \<Rightarrow> 'f option result" where
  "first_matching_row_value L kws rows =
     (case find (label_matches L kws) rows of
        None \<Rightarrow> Inr None
      | Some row \<Rightarrow>
          bindE (py_get row (ascii ''cells'') (JArr [])) (\<lambda>cells.
          bindE (first_cell_reading L cells) (\<lambda>reading. Inr (Some (fst reading)))))"

text \<open>
  The claim fails where the first matching row carries the number 0: the total-fat row
  reads 0 and the saturated-fat row, whose label contains the fat keyword as well, reads
  1.5. The claim gives 0.0; the code skips the first row, because \<^verbatim>\<open>cells[0].get('value')\<close>
  is false for 0, and returns 1.5 from the second.
\<close>

theorem first_matching_row_counterexample:
  "first_matching_row_value py0 [kw_fat]
       [row_of label_fat (JInt 0) ''g'',
        row_of label_saturated_fat (JStr (ascii ''1.5'')) ''g'']
     = Inr (Some 0)
   \<and> extract_nutritional_value py0
       (table_of_rows
          [row_of label_fat (JInt 0) ''g'',
           row_of label_saturated_fat (JStr (ascii ''1.5'')) ''g''])
       [kw_fat] (Some (ascii ''g''))
     = Inr (Some (3 / 2))"
  by (simp add: first_matching_row_value_def label_matches_def first_cell_reading_def
      extractor_defs example_defs)

text \<open>
  The amended claim. A row is usable when its label matches and its first cell holds a
  value that is true in Python (not missing, not empty, not zero) and that \<^verbatim>\<open>float\<close>
  accepts; \<open>usable_reading\<close> is then the numeric value and the unit of that cell.
\<close>

definition usable_reading :: "'f runtime \<Rightarrow> 'f json \<Rightarrow> ('f \<times> ustr) option" where
  "usable_reading L row =
     (case py_get row (ascii ''cells'') (JArr []) of
        Inl e \<Rightarrow> None
      | Inr cells \<Rightarrow>
          (case py_first cells of
             Inl e \<Rightarrow> None
           | Inr cell \<Rightarrow>
               (case py_get cell (ascii ''value'') JNull of
                  Inl e \<Rightarrow> None
                | Inr raw \<Rightarrow>
                    if truthy L raw
                    then (case first_cell_reading L cells of
                            Inl e \<Rightarrow> None
                          | Inr reading \<Rightarrow> Some reading)
                    else None)))"

definition usable :: "'f runtime \<Rightarrow> ustr list \<Rightarrow> 'f json \<Rightarrow> bool" where
  "usable L kws row = (label_matches L kws row \<and> usable_reading L row \<noteq> None)"

definition reconciled :: "'f runtime \<Rightarrow> ustr option \<Rightarrow> 'f \<times> ustr \<Rightarrow> 'f" where
  "reconciled L unit reading =
     (if wants_mg L unit \<and> snd reading = ascii ''g''
      then float_times_1000 L (fst reading) else fst reading)"

definition first_usable_row_value ::
  "'f runtime \<Rightarrow> ustr list \<Rightarrow> ustr option \<Rightarrow> 'f json list \<Rightarrow> 'f option" where
  "first_usable_row_value L kws unit rows =
     (case find (usable L kws) rows of
        None \<Rightarrow> None
      | Some row \<Rightarrow> map_option (reconciled L unit) (usable_reading L row))"

lemma py_first_len: "py_first cells = Inr cell \<Longrightarrow> \<exists>n. py_len cells = Inr n \<and> 1 \<le> n"
  by (cases cells rule: py_first.cases) auto

lemma scan_row_usable:
  assumes "usable L kws row"
  shows "scan_row L kws unit row = Inr (map_option (reconciled L unit) (usable_reading L row))"
proof -
  from assms obtain label
    where label: "py_get row (ascii ''rowLabel'') (JStr []) = Inr (JStr label)"
      and kw: "list_ex (\<lambda>keyword. str_contains keyword (str_lower L label)) kws"
    by (auto simp: usable_def label_matches_def split: sum.splits json.splits)
  from assms obtain cells cell raw reading
    where cells: "py_get row (ascii ''cells'') (JArr []) = Inr cells"
      and cell: "py_first cells = Inr cell"
      and raw: "py_get cell (ascii ''value'') JNull = Inr raw" "truthy L raw"
      and reading: "first_cell_reading L cells = Inr reading"
    by (auto simp: usable_def usable_reading_def split: sum.splits if_splits)
  from cell obtain n where n: "py_len cells = Inr n" "1 \<le> n"
    by (auto dest: py_first_len)
  from cells cell raw reading have ur: "usable_reading L row = Some reading"
    by (simp add: usable_reading_def)
  from reading have "cell_value L unit cells = Inr (reconciled L unit reading)"
    by (simp add: cell_value_reading reconciled_def)
  with label kw cells cell raw n ur show ?thesis
    by (simp add: scan_row_def)
qed

lemma scan_row_returns_usable:
  assumes "scan_row L kws unit row = Inr (Some v)"
  shows "usable L kws row"
proof -
  from scan_row_Some [OF assms] obtain label cells cell raw
    where "py_get row (ascii ''rowLabel'') (JStr []) = Inr (JStr label)"
      "list_ex (\<lambda>keyword. str_contains keyword (str_lower L label)) kws"
      "py_get row (ascii ''cells'') (JArr []) = Inr cells"
      "py_first cells = Inr cell"
      "py_get cell (ascii ''value'') JNull = Inr raw" "truthy L raw"
      "cell_value L unit cells = Inr v"
    by blast
  moreover from this(7) obtain reading where "first_cell_reading L cells = Inr reading"
    by (auto simp: cell_value_reading bindE_Inr_iff)
  ultimately show ?thesis
    by (simp add: usable_def label_matches_def usable_reading_def)
qed

lemma scan_row_skips_unusable: "scan_row L kws unit row = Inr None \<Longrightarrow> \<not> usable L kws row"
proof
  assume skip: "scan_row L kws unit row = Inr None" and "usable L kws row"
  then have "scan_row L kws unit row
      = Inr (map_option (reconciled L unit) (usable_reading L row))"
    and "usable_reading L row \<noteq> None"
    by (simp_all add: scan_row_usable usable_def)
  with skip show False by auto
qed

lemma find_first:
  "\<forall>x\<in>set pre. \<not> P x \<Longrightarrow> P y \<Longrightarrow> find P (pre @ y # post) = Some y"
  by (induction pre) simp_all

lemma scan_rows_first_usable:
  assumes "scan_rows L kws unit rows = Inr r"
  shows "r = first_usable_row_value L kws unit rows"
proof (cases r)
  case None
  with assms have "\<forall>x\<in>set rows. scan_row L kws unit x = Inr None"
    by (auto dest: scan_rows_None)
  then have "\<forall>x\<in>set rows. \<not> usable L kws x"
    by (auto dest: scan_row_skips_unusable)
  then have "find (usable L kws) rows = None"
    by (simp add: find_None_iff)
  with None show ?thesis by (simp add: first_usable_row_value_def)
next
  case (Some v)
  with assms have "scan_rows L kws unit rows = Inr (Some v)" by simp
  from scan_rows_Some [OF this] obtain pre row post
    where split: "rows = pre @ row # post"
      and pre: "\<forall>x\<in>set pre. scan_row L kws unit x = Inr None"
      and hit: "scan_row L kws unit row = Inr (Some v)"
    by blast
  from pre have "\<forall>x\<in>set pre. \<not> usable L kws x"
    by (auto dest: scan_row_skips_unusable)
  moreover from hit have us: "usable L kws row" by (rule scan_row_returns_usable)
  ultimately have "find (usable L kws) rows = Some row"
    unfolding split by (rule find_first)
  then have "first_usable_row_value L kws unit rows
      = map_option (reconciled L unit) (usable_reading L row)"
    by (simp add: first_usable_row_value_def)
  also from scan_row_usable [OF us, of unit] hit have "\<dots> = Some v"
    by (simp del: map_option_eq_Some)
  finally show ?thesis
    using Some by simp
qed

lemma no_match_no_value:
  assumes "\<forall>row\<in>set rows. \<not> label_matches L kws row"
  shows "first_usable_row_value L kws unit rows = None"
proof -
  from assms have "\<forall>row\<in>set rows. \<not> usable L kws row"
    by (simp add: usable_def)
  then have "find (usable L kws) rows = None"
    by (simp add: find_None_iff)
  then show ?thesis
    by (simp add: first_usable_row_value_def)
qed

text \<open>
  On a table of the shape the shop sends, the lookup raises nothing: the table is a dict
  whose \<^verbatim>\<open>rows\<close>, if present, is a list of dicts; a label and a unit are strings where
  present; \<^verbatim>\<open>cells\<close>, if present, is a list whose first element is a dict; and the value
  of that cell is not an integer beyond the range of \<^verbatim>\<open>float\<close>.
\<close>

definition well_formed_cell :: "'f runtime \<Rightarrow> 'f json \<Rightarrow> bool" where
  "well_formed_cell L cell =
     (case cell of
        JObj kvs \<Rightarrow>
          (case map_of kvs (ascii ''unitOfMeasure'') of
             None \<Rightarrow> True | Some (JStr u) \<Rightarrow> True | Some other \<Rightarrow> False)
          \<and> (case map_of kvs (ascii ''value'') of
               None \<Rightarrow> True
             | Some v \<Rightarrow> (case py_float L v of Inl e \<Rightarrow> e \<noteq> OverflowError | Inr x \<Rightarrow> True))
      | other \<Rightarrow> False)"

definition well_formed_row :: "'f runtime \<Rightarrow> 'f json \<Rightarrow> bool" where
  "well_formed_row L row =
     (case row of
        JObj kvs \<Rightarrow>
          (case map_of kvs (ascii ''rowLabel'') of
             None \<Rightarrow> True | Some (JStr label) \<Rightarrow> True | Some other \<Rightarrow> False)
          \<and> (case map_of kvs (ascii ''cells'') of
               None \<Rightarrow> True
             | Some (JArr []) \<Rightarrow> True
             | Some (JArr (cell # cells)) \<Rightarrow> well_formed_cell L cell
             | Some other \<Rightarrow> False)
      | other \<Rightarrow> False)"

definition well_formed_table :: "'f runtime \<Rightarrow> 'f json \<Rightarrow> bool" where
  "well_formed_table L t =
     (case t of
        JNull \<Rightarrow> True
      | JObj kvs \<Rightarrow>
          (case map_of kvs (ascii ''rows'') of
             None \<Rightarrow> True
           | Some (JArr rows) \<Rightarrow> list_all (well_formed_row L) rows
           | Some other \<Rightarrow> False)
      | other \<Rightarrow> False)"

lemma py_float_raises:
  "py_float L v = Inl e \<Longrightarrow> e = ValueError \<or> e = TypeError \<or> e = OverflowError"
  by (cases v) (auto split: option.splits)

lemma cell_value_well_formed:
  assumes "well_formed_cell L cell"
  shows "(\<exists>value. cell_value L unit (JArr (cell # cells)) = Inr value)
     \<or> cell_value L unit (JArr (cell # cells)) = Inl ValueError
     \<or> cell_value L unit (JArr (cell # cells)) = Inl TypeError"
proof -
  from assms obtain kvs where cell: "cell = JObj kvs"
    by (auto simp: well_formed_cell_def split: json.splits)
  define raw where "raw = (case map_of kvs (ascii ''value'') of None \<Rightarrow> JStr [] | Some v \<Rightarrow> v)"
  from assms cell obtain u
    where u: "(case map_of kvs (ascii ''unitOfMeasure'') of None \<Rightarrow> JStr [] | Some v \<Rightarrow> v) = JStr u"
    by (auto simp: well_formed_cell_def split: option.splits json.splits)
  have eq: "cell_value L unit (JArr (cell # cells))
      = bindE (py_float L raw) (\<lambda>value. Inr (reconcile_unit L unit (str_lower L u) value))"
    by (simp add: cell_value_def cell raw_def u)
  have "py_float L raw \<noteq> Inl OverflowError"
  proof (cases "map_of kvs (ascii ''value'')")
    case None
    then show ?thesis by (simp add: raw_def split: option.splits)
  next
    case (Some v)
    with assms cell show ?thesis
      by (auto simp: well_formed_cell_def raw_def split: sum.splits)
  qed
  then show ?thesis
    unfolding eq using py_float_raises [of L raw]
    by (cases "py_float L raw") auto
qed

lemma scan_row_well_formed:
  assumes "well_formed_row L row"
  shows "\<exists>found. scan_row L kws unit row = Inr found"
proof -
  from assms obtain kvs where row: "row = JObj kvs"
    by (auto simp: well_formed_row_def split: json.splits)
  from assms row obtain label
    where label: "(case map_of kvs (ascii ''rowLabel'') of None \<Rightarrow> JStr [] | Some v \<Rightarrow> v)
        = JStr label"
    by (auto simp: well_formed_row_def split: option.splits json.splits)
  from assms row consider
      (empty) "(case map_of kvs (ascii ''cells'') of None \<Rightarrow> JArr [] | Some v \<Rightarrow> v) = JArr []"
    | (cells) cell cells
      where "(case map_of kvs (ascii ''cells'') of None \<Rightarrow> JArr [] | Some v \<Rightarrow> v)
               = JArr (cell # cells)" "well_formed_cell L cell"
    by (auto simp: well_formed_row_def split: option.splits json.splits list.splits)
  then show ?thesis
  proof cases
    case empty
    then show ?thesis by (simp add: scan_row_def row label)
  next
    case (cells cell cells)
    from cells(2) obtain ckvs where cell: "cell = JObj ckvs"
      by (auto simp: well_formed_cell_def split: json.splits)
    from cell_value_well_formed [OF cells(2), of unit cells] cells(1) show ?thesis
      by (auto simp: scan_row_def row label cell)
  qed
qed

lemma scan_rows_well_formed:
  "list_all (well_formed_row L) rows \<Longrightarrow> \<exists>r. scan_rows L kws unit rows = Inr r"
proof (induction rows)
  case Nil
  show ?case by simp
next
  case (Cons row rows)
  from Cons.prems have "well_formed_row L row" by simp
  from scan_row_well_formed [OF this, of kws unit] obtain found
    where "scan_row L kws unit row = Inr found" by blast
  with Cons show ?case by (cases found) auto
qed

text \<open>The lookup returns on every table of that shape.\<close>

lemma extract_nutritional_value_returns:
  assumes "well_formed_table L t"
  shows "\<exists>r. extract_nutritional_value L t kws unit = Inr r"
proof (cases t)
  case (JObj kvs)
  show ?thesis
  proof (cases "map_of kvs (ascii ''rows'')")
    case None
    with JObj show ?thesis by (simp add: extract_nutritional_value_def)
  next
    case (Some rows)
    with assms JObj obtain row_list
      where rows: "rows = JArr row_list" and wf: "list_all (well_formed_row L) row_list"
      by (auto simp: well_formed_table_def split: json.splits)
    from scan_rows_well_formed [OF wf, of kws unit] JObj Some rows show ?thesis
      by (auto simp: extract_nutritional_value_def)
  qed
qed (use assms in \<open>auto simp: well_formed_table_def extract_nutritional_value_def\<close>)

text \<open>
  Claim C7, amended. Whenever \<open>extract_nutritional_value\<close> returns, it returns nothing
  for a table without rows, and otherwise the value of the first usable row: the numeric
  value of the first cell of the first row whose label matches and whose first cell
  holds a true value that \<^verbatim>\<open>float\<close> accepts, multiplied by 1000 under the rule of C6. It
  returns nothing when no row's label matches. It does return on every table of the
  shape above.
\<close>

theorem extract_returns_first_usable_row:
  assumes "extract_nutritional_value L t kws unit = Inr r"
  shows "(r = None \<and> (\<not> truthy L t \<or> py_in (ascii ''rows'') t = Inr False))
     \<or> (\<exists>rows row_list. py_getitem t (ascii ''rows'') = Inr rows
           \<and> py_iter rows = Inr row_list
           \<and> r = first_usable_row_value L kws unit row_list
           \<and> ((\<forall>row\<in>set row_list. \<not> label_matches L kws row) \<longrightarrow> r = None))"
proof -
  from extract_nutritional_value_rows [OF assms]
  show ?thesis
  proof
    assume "r = None \<and> (\<not> truthy L t \<or> py_in (ascii ''rows'') t = Inr False)"
    then show ?thesis by (rule disjI1)
  next
    assume "\<exists>rows row_list. py_getitem t (ascii ''rows'') = Inr rows
           \<and> py_iter rows = Inr row_list \<and> scan_rows L kws unit row_list = Inr r"
    then obtain rows row_list
      where rows: "py_getitem t (ascii ''rows'') = Inr rows" "py_iter rows = Inr row_list"
        and scan: "scan_rows L kws unit row_list = Inr r"
      by blast
    from scan have r: "r = first_usable_row_value L kws unit row_list"
      by (rule scan_rows_first_usable)
    with rows no_match_no_value [of row_list L kws unit] show ?thesis by blast
  qed
qed

text \<open>
  On the table of the counterexample the method returns, and the value is that of the
  first usable row, the second one.
\<close>

theorem extract_returns_first_usable_row_witness:
  "extract_nutritional_value py0
       (table_of_rows
          [row_of label_fat (JInt 0) ''g'',
           row_of label_saturated_fat (JStr (ascii ''1.5'')) ''g''])
       [kw_fat] (Some (ascii ''g''))
     = Inr (Some (3 / 2))
   \<and> first_usable_row_value py0 [kw_fat] (Some (ascii ''g''))
       [row_of label_fat (JInt 0) ''g'',
        row_of label_saturated_fat (JStr (ascii ''1.5'')) ''g'']
     = Some (3 / 2)"
proof -
  let ?rows = "[row_of label_fat (JInt 0) ''g'',
                row_of label_saturated_fat (JStr (ascii ''1.5'')) ''g'']"
  have run: "extract_nutritional_value py0 (table_of_rows ?rows) [kw_fat] (Some (ascii ''g''))
      = Inr (Some (3 / 2))"
    by (simp add: extractor_defs example_defs)
  have rows: "py_getitem (table_of_rows ?rows) (ascii ''rows'') = Inr (JArr ?rows)"
    by (simp add: table_of_rows_def)
  from extract_returns_first_usable_row [OF run] rows
  have "Some (3 / 2) = first_usable_row_value py0 [kw_fat] (Some (ascii ''g'')) ?rows"
    by auto
  with run show ?thesis by simp
qed

section \<open>Registry reconciler: a second run changes nothing\<close>

text \<open>Rows for the examples: every column but the code is the SQL null.\<close>

definition null_product :: "ustr \<Rightarrow> (ustr, 'a option, 'a option) flat_product" where
  "null_product c =
     \<lparr> code = c, product_name = None, quantity = None, brand = None, categories = None,
       ingredients = None, image_url = None, nutriscore_grade = None, energy_100g = None,
       fat_100g = None, saturated_fat_100g = None, proteins_100g = None,
       carbohydrates_100g = None, sugars_100g = None, fiber_100g = None,
       sodium_100g = None \<rparr>"

definition null_row :: "ustr \<Rightarrow> (nat option, nat) metro_row" where
  "null_row c = sql_insert 0 (null_product c)"

lemma needs_tag_after_tag:
  "fis \<in> set (tag_existing metro_source reg) \<Longrightarrow> \<not> needs_tag metro_source fis"
  by (auto simp: tag_existing_def needs_tag_def)

lemma needs_tag_after_insert:
  "fis \<in> set (insert_new metro_source reg) \<Longrightarrow> fis \<notin> set reg \<Longrightarrow>
     \<not> needs_tag metro_source fis"
  by (auto simp: insert_new_def needs_tag_def)

lemma tag_existing_fixed:
  "(\<And>fis. fis \<in> set reg \<Longrightarrow> \<not> needs_tag metro_source fis) \<Longrightarrow>
     tag_existing metro_source reg = reg"
  by (simp add: tag_existing_def map_idI)

lemma no_new_after_insert:
  "m \<in> set metro_source \<Longrightarrow> \<not> is_new (insert_new metro_source reg) m"
  by (auto simp: insert_new_def is_new_def image_iff)

lemma insert_new_fixed:
  "(\<And>m. m \<in> set metro_source \<Longrightarrow> \<not> is_new reg m) \<Longrightarrow> insert_new metro_source reg = reg"
  by (simp add: insert_new_def filter_False)

lemma reconciled_needs_no_tag:
  assumes "fis \<in> set (registry_after (update_food_item_sources metro_source reg))"
  shows "\<not> needs_tag metro_source fis"
proof (cases "fis \<in> set (tag_existing metro_source reg)")
  case True
  then show ?thesis by (rule needs_tag_after_tag)
next
  case False
  with assms show ?thesis
    by (auto simp: update_food_item_sources_def Let_def dest: needs_tag_after_insert)
qed

text \<open>
  Claim C8. Running the two statements of the reconciler a second time against an
  unchanged \<^verbatim>\<open>metro_source\<close> changes no row of the registry: the second run reports
  zero updated and zero inserted rows and leaves the registry as the first run left it.
  Each statement alone is idempotent as well (\<open>tag_existing_idempotent\<close> and
  \<open>insert_new_idempotent\<close> below).
\<close>

theorem reconciler_second_run_changes_nothing:
  "update_food_item_sources metro_source
      (registry_after (update_food_item_sources metro_source food_item_sources))
   = \<lparr> registry_after = registry_after (update_food_item_sources metro_source food_item_sources),
       updated_count = 0, inserted_count = 0 \<rparr>"
proof -
  let ?r1 = "registry_after (update_food_item_sources metro_source food_item_sources)"
  have tag: "tag_existing metro_source ?r1 = ?r1"
    by (rule tag_existing_fixed) (rule reconciled_needs_no_tag)
  have no_new: "\<not> is_new ?r1 m" if "m \<in> set metro_source" for m
    using that by (simp add: update_food_item_sources_def Let_def no_new_after_insert)
  have ins: "insert_new metro_source ?r1 = ?r1"
    by (rule insert_new_fixed) (rule no_new)
  have u: "filter (needs_tag metro_source) ?r1 = []"
    using reconciled_needs_no_tag by (auto simp: filter_empty_conv)
  have i: "filter (is_new ?r1) metro_source = []"
    using no_new by (auto simp: filter_empty_conv)
  show ?thesis
    unfolding update_food_item_sources_def [of metro_source ?r1] Let_def tag ins
    using u i by simp
qed

text \<open>
  An instance: code \<^verbatim>\<open>A\<close> is in both tables and untagged, \<^verbatim>\<open>B\<close> only in the registry,
  \<^verbatim>\<open>C\<close> only in \<^verbatim>\<open>metro_source\<close>. The first run tags \<^verbatim>\<open>A\<close> and inserts \<^verbatim>\<open>C\<close>; the second
  run changes nothing.
\<close>

theorem reconciler_second_run_changes_nothing_witness:
  "update_food_item_sources [null_row (ascii ''A''), null_row (ascii ''C'')]
       [(ascii ''A'', [ascii ''off'']), (ascii ''B'', [ascii ''off''])]
     = \<lparr> registry_after =
           [(ascii ''A'', [ascii ''off'', ascii ''metro'']), (ascii ''B'', [ascii ''off'']),
            (ascii ''C'', [ascii ''metro''])],
         updated_count = 1, inserted_count = 1 \<rparr>
   \<and> update_food_item_sources [null_row (ascii ''A''), null_row (ascii ''C'')]
       [(ascii ''A'', [ascii ''off'', ascii ''metro'']), (ascii ''B'', [ascii ''off'']),
        (ascii ''C'', [ascii ''metro''])]
     = \<lparr> registry_after =
           [(ascii ''A'', [ascii ''off'', ascii ''metro'']), (ascii ''B'', [ascii ''off'']),
            (ascii ''C'', [ascii ''metro''])],
         updated_count = 0, inserted_count = 0 \<rparr>"
proof -
  have first: "update_food_item_sources [null_row (ascii ''A''), null_row (ascii ''C'')]
       [(ascii ''A'', [ascii ''off'']), (ascii ''B'', [ascii ''off''])]
     = \<lparr> registry_after =
           [(ascii ''A'', [ascii ''off'', ascii ''metro'']), (ascii ''B'', [ascii ''off'']),
            (ascii ''C'', [ascii ''metro''])],
         updated_count = 1, inserted_count = 1 \<rparr>"
    by (simp add: update_food_item_sources_def tag_existing_def insert_new_def needs_tag_def
        is_new_def metro_tag_def null_row_def null_product_def sql_insert_def ascii_def)
  from reconciler_second_run_changes_nothing
    [of "[null_row (ascii ''A''), null_row (ascii ''C'')]"
        "[(ascii ''A'', [ascii ''off'']), (ascii ''B'', [ascii ''off''])]"]
  show ?thesis
    unfolding first by simp
qed

lemma tag_existing_idempotent:
  "tag_existing metro_source (tag_existing metro_source reg) = tag_existing metro_source reg"
  by (rule tag_existing_fixed) (rule needs_tag_after_tag)

lemma insert_new_idempotent:
  "insert_new metro_source (insert_new metro_source reg) = insert_new metro_source reg"
  by (rule insert_new_fixed) (rule no_new_after_insert)

section \<open>Bulk loader: what a run leaves in the table\<close>

lemma chunks_Nil [simp]: "chunks n [] = []"
  by (simp add: chunks.simps)

lemma chunks_Cons:
  "0 < n \<Longrightarrow> xs \<noteq> [] \<Longrightarrow> chunks n xs = take n xs # chunks n (drop n xs)"
  by (subst chunks.simps) simp

text \<open>
  The record that a run supplied last for a code, and the table that holds exactly the
  records of a run: one row for every supplied code and no other, each with the sixteen
  columns of the record supplied last for its code.
\<close>

definition supplied_last ::
  "(ustr, 'v, 'v) flat_product list \<Rightarrow> ustr \<Rightarrow> (ustr, 'v, 'v) flat_product option" where
  "supplied_last df c = find (\<lambda>r. code r = c) (rev df)"

definition holds_exactly ::
  "('v, 'ts) metro_row list \<Rightarrow> (ustr, 'v, 'v) flat_product list \<Rightarrow> bool" where
  "holds_exactly tbl df =
     (distinct (map code tbl) \<and> set (map code tbl) = set (map code df)
      \<and> (\<forall>row\<in>set tbl. supplied_last df (code row) = Some (flat_product.truncate row)))"

lemma supplied_last_snoc:
  "supplied_last (df @ [r]) c = (if code r = c then Some r else supplied_last df c)"
  by (simp add: supplied_last_def)

lemma truncate_sql_insert: "flat_product.truncate (sql_insert dflt r) = r"
  by (simp add: sql_insert_def flat_product.truncate_def)

lemma truncate_sql_do_update:
  "code old = code r \<Longrightarrow> flat_product.truncate (sql_do_update now old r) = r"
  by (simp add: sql_do_update_def flat_product.truncate_def)

lemma code_sql_insert: "code (sql_insert dflt r) = code r"
  by (simp add: sql_insert_def)

lemma code_sql_do_update: "code (sql_do_update now old r) = code old"
  by (simp add: sql_do_update_def)

lemma upsert_row_codes:
  "map code (upsert_row dflt now r tbl)
     = (if code r \<in> set (map code tbl) then map code tbl else map code tbl @ [code r])"
  by (induction tbl) (auto simp: code_sql_insert code_sql_do_update)

lemma upsert_row_rows:
  assumes "distinct (map code tbl)"
    and "\<forall>row\<in>set tbl. supplied_last df (code row) = Some (flat_product.truncate row)"
  shows "\<forall>row\<in>set (upsert_row dflt now r tbl).
           supplied_last (df @ [r]) (code row) = Some (flat_product.truncate row)"
  using assms
proof (induction tbl)
  case Nil
  show ?case
    by (simp add: supplied_last_snoc code_sql_insert truncate_sql_insert)
next
  case (Cons old tbl)
  show ?case
  proof (cases "code old = code r")
    case True
    with Cons.prems(1) have "\<forall>row\<in>set tbl. code row \<noteq> code r"
      by force
    with Cons.prems(2) True show ?thesis
      by (auto simp: supplied_last_snoc code_sql_do_update truncate_sql_do_update)
  next
    case False
    from Cons.prems have "\<forall>row\<in>set (upsert_row dflt now r tbl).
           supplied_last (df @ [r]) (code row) = Some (flat_product.truncate row)"
      by (intro Cons.IH) auto
    with Cons.prems(2) False show ?thesis
      by (auto simp: supplied_last_snoc)
  qed
qed

lemma holds_exactly_upsert:
  assumes "holds_exactly tbl df"
  shows "holds_exactly (upsert_row dflt now r tbl) (df @ [r])"
proof -
  from assms have d: "distinct (map code tbl)"
    and s: "set (map code tbl) = set (map code df)"
    and rows: "\<forall>row\<in>set tbl. supplied_last df (code row) = Some (flat_product.truncate row)"
    by (simp_all add: holds_exactly_def)
  from d have "distinct (map code (upsert_row dflt now r tbl))"
    unfolding upsert_row_codes by simp
  moreover from s have "set (map code (upsert_row dflt now r tbl)) = set (map code (df @ [r]))"
    unfolding upsert_row_codes by auto
  moreover note upsert_row_rows [OF d rows, of dflt now r]
  ultimately show ?thesis
    unfolding holds_exactly_def by blast
qed

lemma holds_exactly_page:
  "holds_exactly tbl df \<Longrightarrow>
     holds_exactly (foldl (\<lambda>t r. upsert_row dflt now r t) tbl page) (df @ page)"
proof (induction page arbitrary: tbl df)
  case Nil
  then show ?case by simp
next
  case (Cons r page)
  from Cons.prems have "holds_exactly (upsert_row dflt now r tbl) (df @ [r])"
    by (rule holds_exactly_upsert)
  from Cons.IH [OF this] show ?case by simp
qed

lemma holds_exactly_pages:
  "holds_exactly tbl df \<Longrightarrow> execute_pages dflt now pages tbl = Some tbl' \<Longrightarrow>
     holds_exactly tbl' (df @ concat pages)"
proof (induction pages arbitrary: tbl df)
  case Nil
  then show ?case by simp
next
  case (Cons page pages)
  from Cons.prems(2) obtain mid
    where mid: "insert_on_conflict dflt now page tbl = Some mid"
      and rest: "execute_pages dflt now pages mid = Some tbl'"
    by (auto split: option.splits)
  from mid have "mid = foldl (\<lambda>t r. upsert_row dflt now r t) tbl page"
    by (simp add: insert_on_conflict_def split: if_splits)
  with Cons.prems(1) have "holds_exactly mid (df @ page)"
    by (simp add: holds_exactly_page)
  from Cons.IH [OF this rest] show ?case by simp
qed

lemma concat_chunks: "0 < n \<Longrightarrow> concat (chunks n xs) = xs"
proof (induction n xs rule: chunks.induct)
  case (1 n xs)
  show ?case
  proof (cases "xs = []")
    case True
    then show ?thesis by simp
  next
    case False
    with 1 show ?thesis by (simp add: chunks_Cons)
  qed
qed

lemma holds_exactly_execute_values:
  "holds_exactly tbl df \<Longrightarrow> execute_values dflt now batch_data tbl = Some tbl' \<Longrightarrow>
     holds_exactly tbl' (df @ batch_data)"
  using holds_exactly_pages [of tbl df dflt now "chunks 100 batch_data" tbl']
  by (simp add: execute_values_def concat_chunks)

lemma holds_exactly_batches:
  "holds_exactly (pending conn) df \<Longrightarrow>
   import_batches dflt clock i (batch_data # batches) conn = (True, conn') \<Longrightarrow>
     holds_exactly (committed conn') (df @ batch_data @ concat batches)"
proof (induction batches arbitrary: batch_data conn df i)
  case Nil
  from Nil.prems(2) obtain tbl
    where tbl: "execute_values dflt (clock i) batch_data (pending conn) = Some tbl"
      and conn': "conn' = \<lparr> committed = tbl, pending = tbl \<rparr>"
    by (auto split: option.splits)
  from holds_exactly_execute_values [OF Nil.prems(1) tbl] conn' show ?case by simp
next
  case (Cons next_batch batches)
  from Cons.prems(2) obtain tbl
    where tbl: "execute_values dflt (clock i) batch_data (pending conn) = Some tbl"
      and rest: "import_batches dflt clock (Suc i) (next_batch # batches)
                   \<lparr> committed = tbl, pending = tbl \<rparr> = (True, conn')"
    by (auto split: option.splits)
  from holds_exactly_execute_values [OF Cons.prems(1) tbl]
  have "holds_exactly (pending \<lparr> committed = tbl, pending = tbl \<rparr>) (df @ batch_data)"
    by simp
  from Cons.IH [OF this rest] show ?case by simp
qed

text \<open>
  For a frame with at least one row the claim holds: a run that returns \<^verbatim>\<open>True\<close> leaves a
  table that holds exactly the records of the run, whatever was stored before.
\<close>

lemma import_of_rows_holds_exactly:
  assumes "0 < batch_size" and "df \<noteq> []"
    and "import_csv_to_metro_source dflt clock batch_size df db = (True, tbl)"
  shows "holds_exactly tbl df"
proof -
  from assms(1,2) obtain batch_data batches
    where c: "chunks batch_size df = batch_data # batches"
    by (auto simp: chunks_Cons)
  from assms(1,3) c obtain conn'
    where run: "import_batches dflt clock 0 (batch_data # batches)
                  \<lparr> committed = db, pending = sql_delete_all db \<rparr> = (True, conn')"
      and tbl: "tbl = committed conn'"
    by (auto simp: import_csv_to_metro_source_def split: prod.splits)
  have "holds_exactly (pending \<lparr> committed = db, pending = sql_delete_all db \<rparr>) []"
    by (simp add: holds_exactly_def sql_delete_all_def)
  from holds_exactly_batches [OF this run] have "holds_exactly (committed conn') (concat (chunks batch_size df))"
    by (simp add: c)
  with assms(1) tbl show ?thesis by (simp add: concat_chunks)
qed

lemma execute_pages_distinct:
  "\<forall>page\<in>set pages. distinct (map code page) \<Longrightarrow>
     \<exists>tbl'. execute_pages dflt now pages tbl = Some tbl'"
  by (induction pages arbitrary: tbl) (simp_all add: insert_on_conflict_def)

lemma chunks_distinct:
  "distinct (map f xs) \<Longrightarrow> \<forall>c\<in>set (chunks n xs). distinct (map f c)"
proof (induction n xs rule: chunks.induct)
  case (1 n xs)
  show ?case
  proof (cases "n = 0 \<or> xs = []")
    case True
    then show ?thesis by (auto simp: chunks.simps [of n xs])
  next
    case False
    from "1.prems" have "distinct (map f (take n xs))" "distinct (map f (drop n xs))"
      by (simp_all add: take_map [symmetric] drop_map [symmetric])
    with "1.IH" False show ?thesis
      by (simp add: chunks.simps [of n xs])
  qed
qed

lemma import_batches_distinct:
  "\<forall>batch_data\<in>set batches. distinct (map code batch_data) \<Longrightarrow>
     fst (import_batches dflt clock i batches conn)"
proof (induction batches arbitrary: i conn)
  case Nil
  show ?case by simp
next
  case (Cons batch_data batches)
  from Cons.prems have "distinct (map code batch_data)"
    by simp
  then have "\<forall>page\<in>set (chunks 100 batch_data). distinct (map code page)"
    by (rule chunks_distinct)
  from execute_pages_distinct [OF this, of dflt "clock i" "pending conn"] obtain tbl
    where "execute_values dflt (clock i) batch_data (pending conn) = Some tbl"
    unfolding execute_values_def by blast
  with Cons show ?case by simp
qed

text \<open>A frame in which no code occurs twice is imported with success.\<close>

lemma import_of_distinct_codes_succeeds:
  assumes "0 < batch_size" and "distinct (map code df)"
  shows "fst (import_csv_to_metro_source dflt clock batch_size df db)"
proof -
  from assms(2) have "\<forall>batch_data\<in>set (chunks batch_size df). distinct (map code batch_data)"
    by (rule chunks_distinct)
  from import_batches_distinct [OF this, of dflt clock 0
      "\<lparr> committed = db, pending = sql_delete_all db \<rparr>"] assms(1)
  show ?thesis
    by (auto simp: import_csv_to_metro_source_def split: prod.splits)
qed

lemma import_of_two_rows_replaces:
  "import_csv_to_metro_source 0 (\<lambda>i. Suc i) 1000
       [null_product (ascii ''5901234123457''), null_product (ascii ''4008400401621'')]
       [null_row (ascii ''3017620422003'')]
     = (True, [null_row (ascii ''5901234123457''), null_row (ascii ''4008400401621'')])"
  by (simp add: import_csv_to_metro_source_def chunks_Cons execute_values_def
      insert_on_conflict_def null_product_def null_row_def sql_insert_def sql_delete_all_def
      ascii_def)

text \<open>
  Claim C9 says that after a successful run the table holds exactly the records of that
  run, every row of before being removed. That is so for every frame with at least one
  row, as shown above. For a frame without rows (a CSV with only the
  header line, or one whose rows all lack a code) the loop over the batches has no turn:
  \<^verbatim>\<open>DELETE\<close> was executed in the open transaction, but \<^verbatim>\<open>conn.commit()\<close> stands only inside
  the loop, so the method returns \<^verbatim>\<open>True\<close> and \<^verbatim>\<open>conn.close()\<close> drops the deletion. The
  rows of the run before are all still stored.
\<close>

theorem empty_import_keeps_previous_rows:
  "import_csv_to_metro_source 0 (\<lambda>i. Suc i) 1000 []
       [null_row (ascii ''5901234123457''), null_row (ascii ''4008400401621'')]
     = (True, [null_row (ascii ''5901234123457''), null_row (ascii ''4008400401621'')])"
  by (simp add: import_csv_to_metro_source_def)

section \<open>Empty cells and zero energy\<close>

lemma scan_row_empty_value:
  assumes cell: "map_of cell (ascii ''value'') = None \<or> map_of cell (ascii ''value'') = Some (JStr [])"
    and cells: "map_of row (ascii ''cells'') = Some (JArr (JObj cell # cells))"
    and label: "map_of row (ascii ''rowLabel'') = None
      \<or> (\<exists>label. map_of row (ascii ''rowLabel'') = Some (JStr label))"
  shows "scan_row L kws unit (JObj row) = Inr None"
proof -
  from cell have v: "\<exists>v. py_get (JObj cell) (ascii ''value'') JNull = Inr v \<and> \<not> truthy L v"
    by auto
  from label obtain l where l: "py_get (JObj row) (ascii ''rowLabel'') (JStr []) = Inr (JStr l)"
    by auto
  from cells have c: "py_get (JObj row) (ascii ''cells'') (JArr []) = Inr (JArr (JObj cell # cells))"
    by simp
  from v show ?thesis
    unfolding scan_row_def l c by auto
qed

text \<open>
  Claim C10. First, a row whose first cell has no \<^verbatim>\<open>value\<close>, or an empty one, never
  supplies the result, whatever its label: the table with the row gives what the table
  without the row gives, so the scan goes on with the later rows. Second, when the
  lookup for \<^verbatim>\<open>kcal\<close> yields a zero (or nothing), the energy of the returned record is
  decided by the lookup for \<^verbatim>\<open>kJ\<close>: that lookup has to return for a record to be
  returned, and its value, converted, is the energy unless it is zero or absent too.
\<close>

theorem empty_cells_and_zero_energy_count_as_absent:
  "((map_of cell (ascii ''value'') = None \<or> map_of cell (ascii ''value'') = Some (JStr []))
      \<and> map_of row (ascii ''cells'') = Some (JArr (JObj cell # cells))
      \<and> (map_of row (ascii ''rowLabel'') = None
           \<or> (\<exists>label. map_of row (ascii ''rowLabel'') = Some (JStr label)))
     \<longrightarrow> extract_nutritional_value L (JObj [(ascii ''rows'', JArr (pre @ JObj row # post))])
            kws unit
         = extract_nutritional_value L (JObj [(ascii ''rows'', JArr (pre @ post))]) kws unit)
   \<and> (extract_product_data L a = Some p \<and> locate_bundle L a = Inr (Some bundle)
        \<and> py_get bundle (ascii ''details'') (JObj []) = Inr d \<and> truthy L d
        \<and> py_get d (ascii ''nutritionalTable'') (JObj []) = Inr t \<and> truthy L t
        \<and> extract_nutritional_value L t [kw_energy] (Some (ascii ''kcal'')) = Inr e
        \<and> \<not> float_opt_truthy L e
     \<longrightarrow> (\<exists>kj. extract_nutritional_value L t [kw_energy] (Some (ascii ''kJ'')) = Inr kj
            \<and> energy_100g p
                = (if float_opt_truthy L kj then map_option (float_kj_to_kcal L) kj else e)))"
proof (intro conjI impI)
  assume "(map_of cell (ascii ''value'') = None \<or> map_of cell (ascii ''value'') = Some (JStr []))
      \<and> map_of row (ascii ''cells'') = Some (JArr (JObj cell # cells))
      \<and> (map_of row (ascii ''rowLabel'') = None
           \<or> (\<exists>label. map_of row (ascii ''rowLabel'') = Some (JStr label)))"
  then have "scan_row L kws unit (JObj row) = Inr None"
    by (intro scan_row_empty_value) blast+
  then have "scan_rows L kws unit (pre @ JObj row # post) = scan_rows L kws unit (pre @ post)"
    by (rule scan_rows_skip)
  then show "extract_nutritional_value L (JObj [(ascii ''rows'', JArr (pre @ JObj row # post))])
            kws unit
         = extract_nutritional_value L (JObj [(ascii ''rows'', JArr (pre @ post))]) kws unit"
    by (simp only: extract_nutritional_value_table)
next
  assume asm: "extract_product_data L a = Some p \<and> locate_bundle L a = Inr (Some bundle)
        \<and> py_get bundle (ascii ''details'') (JObj []) = Inr d \<and> truthy L d
        \<and> py_get d (ascii ''nutritionalTable'') (JObj []) = Inr t \<and> truthy L t
        \<and> extract_nutritional_value L t [kw_energy] (Some (ascii ''kcal'')) = Inr e
        \<and> \<not> float_opt_truthy L e"
  then have p: "extract_product_data L a = Some p"
    and loc: "locate_bundle L a = Inr (Some bundle)"
    and d: "py_get bundle (ascii ''details'') (JObj []) = Inr d" "truthy L d"
    and t: "py_get d (ascii ''nutritionalTable'') (JObj []) = Inr t" "truthy L t"
    and e: "extract_nutritional_value L t [kw_energy] (Some (ascii ''kcal'')) = Inr e"
      "\<not> float_opt_truthy L e"
    by simp_all
  from p loc have "extract_bundle L bundle = Inr (Some p)"
    by (auto dest: extract_product_data_Some)
  from extract_bundle_Some [OF this] obtain details
    where details: "extract_details L bundle = Inr details"
      and energy: "energy_100g p = nutrition_get (snd details) (ascii ''energy_100g'')"
    by blast
  from details d t have "extract_nutrition L t = Inr (snd details)"
    by (rule extract_details_table)
  from extract_nutrition_Inr [OF this] e(1) obtain others
    where "energy_fallback L t ((ascii ''energy_100g'', e) # others) = Inr (snd details)"
    by auto
  from energy_fallback_energy [OF this] e(2) energy
  show "\<exists>kj. extract_nutritional_value L t [kw_energy] (Some (ascii ''kJ'')) = Inr kj
            \<and> energy_100g p
                = (if float_opt_truthy L kj then map_option (float_kj_to_kcal L) kj else e)"
    by simp
qed

text \<open>
  An energy row with an empty value before one with 250 kcal: the lookup gives 250. A
  bundle whose only energy row reads \<^verbatim>\<open>0\<close>: the lookup for \<^verbatim>\<open>kcal\<close> gives 0.0, the
  lookup for \<^verbatim>\<open>kJ\<close> is made and returns, and the record is returned with energy 0.
\<close>

theorem empty_cells_and_zero_energy_count_as_absent_witness:
  "extract_nutritional_value py0
       (table_of_rows [row_of label_energy (JStr []) ''kcal'',
                       row_of label_energy (JStr (ascii ''250'')) ''kcal''])
       [kw_energy] (Some (ascii ''kcal'')) = Inr (Some 250)
   \<and> extract_product_data py0
       (article_with_bundle (barcode_bundle
          [(ascii ''details'',
            JObj [(ascii ''nutritionalTable'',
                   table_of_rows [row_of label_energy (JStr (ascii ''0'')) ''kcal''])])]))
     = Some \<lparr> code = JStr (ascii ''5901234123457''), product_name = JNull, quantity = JNull,
              brand = JNull, categories = JNull, ingredients = JNull, image_url = JNull,
              nutriscore_grade = JNull, energy_100g = Some 0, fat_100g = None,
              saturated_fat_100g = None, proteins_100g = None, carbohydrates_100g = None,
              sugars_100g = None, fiber_100g = None, sodium_100g = None \<rparr>
   \<and> extract_nutritional_value py0
       (table_of_rows [row_of label_energy (JStr (ascii ''0'')) ''kcal''])
       [kw_energy] (Some (ascii ''kcal'')) = Inr (Some 0)
   \<and> (\<exists>kj. extract_nutritional_value py0
              (table_of_rows [row_of label_energy (JStr (ascii ''0'')) ''kcal''])
              [kw_energy] (Some (ascii ''kJ'')) = Inr kj
          \<and> Some 0 = (if float_opt_truthy py0 kj then map_option (float_kj_to_kcal py0) kj
                      else Some 0))"
proof -
  let ?cell = "[(ascii ''value'', JStr []), (ascii ''unitOfMeasure'', JStr (ascii ''kcal''))]"
  let ?row = "[(ascii ''rowLabel'', JStr label_energy), (ascii ''cells'', JArr [JObj ?cell])]"
  let ?post = "[row_of label_energy (JStr (ascii ''250'')) ''kcal'']"
  have cell: "map_of ?cell (ascii ''value'') = None \<or> map_of ?cell (ascii ''value'') = Some (JStr [])"
    by simp
  have row: "map_of ?row (ascii ''cells'') = Some (JArr (JObj ?cell # []))"
    by (simp add: ascii_def)
  have label: "map_of ?row (ascii ''rowLabel'') = None
      \<or> (\<exists>label. map_of ?row (ascii ''rowLabel'') = Some (JStr label))"
    by simp
  from cell row label
    empty_cells_and_zero_energy_count_as_absent
      [of ?cell ?row "[]" py0 "[]" ?post "[kw_energy]" "Some (ascii ''kcal'')"]
  have "extract_nutritional_value py0 (JObj [(ascii ''rows'', JArr ([] @ JObj ?row # ?post))])
            [kw_energy] (Some (ascii ''kcal''))
         = extract_nutritional_value py0 (JObj [(ascii ''rows'', JArr ([] @ ?post))])
            [kw_energy] (Some (ascii ''kcal''))"
    by blast
  moreover have "extract_nutritional_value py0 (JObj [(ascii ''rows'', JArr ([] @ ?post))])
            [kw_energy] (Some (ascii ''kcal'')) = Inr (Some 250)"
    by (simp add: extractor_defs example_defs)
  ultimately have first: "extract_nutritional_value py0
       (table_of_rows [row_of label_energy (JStr []) ''kcal'',
                       row_of label_energy (JStr (ascii ''250'')) ''kcal''])
       [kw_energy] (Some (ascii ''kcal'')) = Inr (Some 250)"
    by (simp add: table_of_rows_def row_of_def)
  let ?t = "table_of_rows [row_of label_energy (JStr (ascii ''0'')) ''kcal'']"
  let ?d = "JObj [(ascii ''nutritionalTable'', ?t)]"
  let ?b = "barcode_bundle [(ascii ''details'', ?d)]"
  let ?a = "article_with_bundle ?b"
  let ?p = "\<lparr> code = JStr (ascii ''5901234123457''), product_name = JNull, quantity = JNull,
              brand = JNull, categories = JNull, ingredients = JNull, image_url = JNull,
              nutriscore_grade = JNull, energy_100g = Some 0, fat_100g = None,
              saturated_fat_100g = None, proteins_100g = None, carbohydrates_100g = None,
              sugars_100g = None, fiber_100g = None, sodium_100g = None \<rparr> :: rat product"
  have p: "extract_product_data py0 ?a = Some ?p"
    by (simp add: product_defs extractor_defs example_defs)
  have loc: "locate_bundle py0 ?a = Inr (Some ?b)"
    by (simp add: locate_bundle_def article_with_bundle_def)
  have d: "py_get ?b (ascii ''details'') (JObj []) = Inr ?d" "truthy py0 ?d"
    by (simp_all add: barcode_bundle_def ascii_def)
  have t: "py_get ?d (ascii ''nutritionalTable'') (JObj []) = Inr ?t" "truthy py0 ?t"
    by (simp_all add: table_of_rows_def)
  have e: "extract_nutritional_value py0 ?t [kw_energy] (Some (ascii ''kcal'')) = Inr (Some 0)"
    by (simp add: extractor_defs example_defs)
  have zero: "\<not> float_opt_truthy py0 (Some 0)"
    by (simp add: py0_def)
  from p loc d t e zero
  have "extract_product_data py0 ?a = Some ?p \<and> locate_bundle py0 ?a = Inr (Some ?b)
        \<and> py_get ?b (ascii ''details'') (JObj []) = Inr ?d \<and> truthy py0 ?d
        \<and> py_get ?d (ascii ''nutritionalTable'') (JObj []) = Inr ?t \<and> truthy py0 ?t
        \<and> extract_nutritional_value py0 ?t [kw_energy] (Some (ascii ''kcal'')) = Inr (Some 0)
        \<and> \<not> float_opt_truthy py0 (Some 0)"
    by (intro conjI)
  from empty_cells_and_zero_energy_count_as_absent
      [of _ _ _ py0 _ _ _ _ ?a ?p ?b ?d ?t "Some 0", THEN conjunct2, THEN mp, OF this]
  have "\<exists>kj. extract_nutritional_value py0 ?t [kw_energy] (Some (ascii ''kJ'')) = Inr kj
          \<and> energy_100g ?p
              = (if float_opt_truthy py0 kj then map_option (float_kj_to_kcal py0) kj
                 else Some 0)" .
  then have second: "\<exists>kj. extract_nutritional_value py0 ?t [kw_energy] (Some (ascii ''kJ'')) = Inr kj
          \<and> Some 0 = (if float_opt_truthy py0 kj then map_option (float_kj_to_kcal py0) kj
                      else Some 0)"
    by simp
  from first p e second show ?thesis by blast
qed

end
